theory Spec2Isabelle
  imports Complex_Main "HOL-Library.Log_Nat"
begin

section \<open>Data model (types.ts)\<close>

datatype StudyStatus = IDLE | STUDYING | DISTRACTED | ABSENT

text \<open>
  \<open>AnalysisResult\<close> of types.ts. A JavaScript number is an IEEE-754 double; every finite
  double is a rational, so \<open>confidence\<close> is a \<open>rat\<close>.
\<close>

record AnalysisResult =
  status :: StudyStatus
  reason :: string
  confidence :: rat

text \<open>
  The object held by \<open>statsRef\<close> in the App component. The counters start at 0 and only
  ever grow by 1, so they are exact integers (a double counts exactly up to \<open>2 ^ 53\<close>).
  The field \<open>total\<close> of the source is \<open>total'\<close> here, \<open>total\<close> being a constant of HOL.
\<close>

record SessionStats =
  studying :: nat
  distracted :: nat
  absent :: nat
  total' :: nat

text \<open>
  \<open>StudySession\<close> of types.ts; \<open>statusCounts\<close> is the spread copy of the statistics
  object, and \<open>session_id\<close> the clock reading the source turns into the id string.
\<close>

record StudySession =
  session_id :: int
  startTime :: int
  endTime :: int
  duration :: int
  focusScore :: int
  statusCounts :: SessionStats

section \<open>Double-precision arithmetic\<close>

text \<open>
  The score and the ducked volume are computed with JavaScript numbers. The operations
  \<open>/\<close> and \<open>*\<close> return the exact result rounded to the nearest double, ties to the even
  significand. \<open>rne\<close> is that rounding on integers, \<open>binexp x\<close> is the binary exponent
  \<open>\<lfloor>log\<^sub>2 x\<rfloor>\<close> of a positive rational, and \<open>fl\<close> rounds a rational to 53 significant
  bits, with the exponent held at \<open>-1022\<close> in the subnormal range. Overflow to infinity
  (values of \<open>2 ^ 1024\<close> and more) is outside the model; no operand here exceeds
  \<open>100 * 2 ^ 53\<close>.
\<close>

definition rne :: "rat \<Rightarrow> int" where
  "rne y = (let f = \<lfloor>y\<rfloor>; d = y - of_int f
            in if d < 1 / 2 then f else if 1 / 2 < d then f + 1
               else if even f then f else f + 1)"

definition binexp :: "rat \<Rightarrow> int" where
  "binexp x = (let (p, q) = quotient_of x; e = bitlen p - bitlen q
               in if 2 powi e \<le> x then e else e - 1)"

definition fl :: "rat \<Rightarrow> rat" where
  "fl x = (if x = 0 then 0
           else let a = \<bar>x\<bar>; e = max (binexp a) (- 1022); u = 2 powi (e - 52)
                in sgn x * of_int (rne (a / u)) * u)"

text \<open>Division and multiplication of two doubles (the divisor is not zero where used).\<close>

definition fdiv :: "rat \<Rightarrow> rat \<Rightarrow> rat" where
  "fdiv x y = fl (x / y)"

definition fmul :: "rat \<Rightarrow> rat \<Rightarrow> rat" where
  "fmul x y = fl (x * y)"

text \<open>\<open>Math.round\<close>: the nearest integer, a tie going up.\<close>

definition Math_round :: "rat \<Rightarrow> int" where
  "Math_round x = \<lfloor>x + 1 / 2\<rfloor>"

section \<open>The App component\<close>

text \<open>
  The part of the App component's state that \<open>handleStatusChange\<close>, \<open>toggleMonitoring\<close>
  and \<open>getTargetVolume\<close> read and write: the refs \<open>isMonitoringRef\<close>, \<open>statsRef\<close>,
  \<open>consecutiveBadChecksRef\<close> and the React state \<open>isMonitoring\<close>, \<open>currentResult\<close>,
  \<open>sessions\<close>, \<open>startTime\<close> (here \<open>appStartTime\<close>, \<open>None\<close> for null), \<open>elapsedTime\<close>,
  \<open>sensitivity\<close>, \<open>musicVolume\<close>. The stable, UI-visible status is
  \<open>status (currentResult s)\<close>.
\<close>

record AppState =
  isMonitoring :: bool
  isMonitoringRef :: bool
  currentResult :: AnalysisResult
  sessions :: "StudySession list"
  appStartTime :: "int option"
  elapsedTime :: int
  sensitivity :: nat
  musicVolume :: rat
  statsRef :: SessionStats
  consecutiveBadChecksRef :: nat

definition idleResult :: AnalysisResult where
  "idleResult = \<lparr>status = IDLE, reason = [], confidence = 0\<rparr>"

definition zeroStats :: SessionStats where
  "zeroStats = \<lparr>studying = 0, distracted = 0, absent = 0, total' = 0\<rparr>"

text \<open>The state of a freshly mounted App: the initial values of its hooks.\<close>

definition initialApp :: AppState where
  "initialApp = \<lparr>isMonitoring = False, isMonitoringRef = False, currentResult = idleResult,
     sessions = [], appStartTime = None, elapsedTime = 0, sensitivity = 2,
     musicVolume = 1 / 2, statsRef = zeroStats, consecutiveBadChecksRef = 0\<rparr>"

text \<open>
  \<open>getTargetVolume\<close>: the volume is ducked while the stable status is DISTRACTED or
  ABSENT. The literal \<open>0.2\<close> of the source is the double nearest to one fifth.
\<close>

definition getTargetVolume :: "AppState \<Rightarrow> rat" where
  "getTargetVolume s =
     (let target = musicVolume s
      in if status (currentResult s) = DISTRACTED \<or> status (currentResult s) = ABSENT
         then fmul (musicVolume s) (fl (2 / 10))
         else target)"

text \<open>Step 1 of \<open>handleStatusChange\<close>: the raw statistics.\<close>

definition recordStats :: "StudyStatus \<Rightarrow> SessionStats \<Rightarrow> SessionStats" where
  "recordStats st stats =
     (let stats1 = stats\<lparr>total' := total' stats + 1\<rparr>
      in if st = STUDYING then stats1\<lparr>studying := studying stats1 + 1\<rparr>
         else if st = DISTRACTED then stats1\<lparr>distracted := distracted stats1 + 1\<rparr>
         else if st = ABSENT then stats1\<lparr>absent := absent stats1 + 1\<rparr>
         else stats1)"

text \<open>
  \<open>handleStatusChange\<close>: the guard on \<open>isMonitoringRef\<close>, the statistics, then the
  debounced update of \<open>currentResult\<close>. The function is a \<open>useCallback\<close> with the
  dependency \<open>sensitivity\<close>: each render makes a callback that holds the sensitivity of
  that render, the argument \<open>sens\<close> here, while the refs it reads and writes are those of
  the state at the moment it is called. A capture that is awaited keeps the callback of
  the render at which it started.
\<close>

definition handleStatusChange :: "nat \<Rightarrow> AnalysisResult \<Rightarrow> AppState \<Rightarrow> AppState" where
  "handleStatusChange sens result s =
     (if \<not> isMonitoringRef s then s
      else
        let s1 = s\<lparr>statsRef := recordStats (status result) (statsRef s)\<rparr>
        in if status result = DISTRACTED \<or> status result = ABSENT then
             let s2 = s1\<lparr>consecutiveBadChecksRef := consecutiveBadChecksRef s1 + 1\<rparr>
             in if consecutiveBadChecksRef s2 \<ge> sens
                then s2\<lparr>currentResult := result\<rparr>
                else s2
           else s1\<lparr>consecutiveBadChecksRef := 0, currentResult := result\<rparr>)"

text \<open>
  Ingesting a sequence of raw results, one call of \<open>handleStatusChange\<close> each; every
  result comes with the sensitivity that its callback holds.
\<close>

fun ingestAll :: "(nat \<times> AnalysisResult) list \<Rightarrow> AppState \<Rightarrow> AppState" where
  "ingestAll [] s = s"
| "ingestAll ((sens, r) # ps) s = ingestAll ps (handleStatusChange sens r s)"

text \<open>
  The score of \<open>toggleMonitoring\<close>:
  \<open>totalChecks > 0 ? Math.round((statsRef.current.studying / totalChecks) * 100) : 0\<close>,
  a double division, a double multiplication, then \<open>Math.round\<close>.
\<close>

definition calcFocusScore :: "SessionStats \<Rightarrow> int" where
  "calcFocusScore stats =
     (let totalChecks = total' stats
      in if totalChecks > 0
         then Math_round (fmul (fdiv (of_nat (studying stats)) (of_nat totalChecks)) 100)
         else 0)"

text \<open>
  \<open>toggleMonitoring\<close>. \<open>Date_now k\<close> is the reading of the \<open>k\<close>-th call of \<open>Date.now()\<close>
  made by this invocation, in milliseconds. \<open>startTime\<close> is tested for truthiness, so
  null and 0 both count as unset. Timestamps are far below \<open>2 ^ 53\<close>, where
  \<open>Math.floor\<close> of the double quotient is the integer quotient.
\<close>

definition toggleMonitoring :: "(nat \<Rightarrow> int) \<Rightarrow> AppState \<Rightarrow> AppState" where
  "toggleMonitoring Date_now s =
     (if isMonitoring s then
        let startSet = (case appStartTime s of None \<Rightarrow> False | Some t \<Rightarrow> t \<noteq> 0);
            endT = Date_now 0;
            dur = (if startSet then (endT - the (appStartTime s)) div 1000 else 0);
            score = calcFocusScore (statsRef s);
            newSession = \<lparr>session_id = Date_now 1,
                          startTime = (if startSet then the (appStartTime s) else Date_now 2),
                          endTime = endT, duration = dur, focusScore = score,
                          statusCounts = statsRef s\<rparr>
        in s\<lparr>isMonitoringRef := False, sessions := newSession # sessions s,
             isMonitoring := False, currentResult := idleResult, appStartTime := None,
             elapsedTime := 0, consecutiveBadChecksRef := 0\<rparr>
      else
        s\<lparr>isMonitoringRef := True, isMonitoring := True, appStartTime := Some (Date_now 0),
          elapsedTime := 0, statsRef := zeroStats, consecutiveBadChecksRef := 0\<rparr>)"

text \<open>
  Vocabulary of the debouncing properties: a raw status is bad when it is DISTRACTED or
  ABSENT, and \<open>trailingBad rs\<close> counts the bad results at the end of the history \<open>rs\<close>,
  that is since the last result that was not bad, or since the start.
\<close>

definition isBad :: "StudyStatus \<Rightarrow> bool" where
  "isBad st = (st = DISTRACTED \<or> st = ABSENT)"


definition countStatus :: "StudyStatus \<Rightarrow> AnalysisResult list \<Rightarrow> nat" where
  "countStatus st rs = length (filter (\<lambda>r. status r = st) rs)"

definition raw :: "StudyStatus \<Rightarrow> AnalysisResult" where
  "raw st = \<lparr>status = st, reason = [], confidence = 1\<rparr>"

section \<open>The classification client (services/geminiService.ts)\<close>

text \<open>
  What the \<open>catch\<close> block reads from a thrown value: its \<open>status\<close> and \<open>code\<close>
  properties (absent, a number or a string) and its \<open>message\<close>, a string as for every
  \<open>Error\<close> object, empty when absent.
\<close>

datatype jsval = Undefined | Num int | Str string

record js_error =
  err_status :: jsval
  err_code :: jsval
  err_message :: string

text \<open>
  One call of \<open>ai.models.generateContent\<close> either rejects with an error or resolves to a
  response whose \<open>text\<close> is a string or undefined.
\<close>

datatype outcome = Response "string option" | Rejected js_error

text \<open>What \<open>analyzeFrame\<close> does to the outside: classifier calls and waits (in ms).\<close>

datatype event = Call string | Wait nat

definition truthy :: "jsval \<Rightarrow> bool" where
  "truthy v = (case v of Undefined \<Rightarrow> False | Num n \<Rightarrow> n \<noteq> 0 | Str t \<Rightarrow> t \<noteq> [])"

text \<open>\<open>matchPrefix p s\<close>: the rest of \<open>s\<close> after the literal \<open>p\<close>, when \<open>s\<close> starts with it.\<close>

fun matchPrefix :: "string \<Rightarrow> string \<Rightarrow> string option" where
  "matchPrefix [] s = Some s"
| "matchPrefix (c # cs) [] = None"
| "matchPrefix (c # cs) (d # ds) = (if c = d then matchPrefix cs ds else None)"

definition startsWith :: "string \<Rightarrow> string \<Rightarrow> bool" where
  "startsWith s p = (matchPrefix p s \<noteq> None)"

text \<open>
  \<open>String.prototype.includes\<close>: the argument occurs somewhere in the string. The name
  carries a prime since \<open>includes\<close> is a keyword of Isabelle.
\<close>

fun includes' :: "string \<Rightarrow> string \<Rightarrow> bool" where
  "includes' [] sub = (sub = [])"
| "includes' (c # cs) sub = (startsWith (c # cs) sub \<or> includes' cs sub)"

text \<open>
  The regular expression \<open>/^data:image\/(png|jpeg|jpg);base64,/\<close>: the alternatives are
  tried in order, each followed by the literal \<open>;base64,\<close>.
\<close>

definition mimeAlternatives :: "string list" where
  "mimeAlternatives = [''png'', ''jpeg'', ''jpg'']"

fun matchAlternatives :: "string list \<Rightarrow> string \<Rightarrow> string \<Rightarrow> string option" where
  "matchAlternatives [] suffix s = None"
| "matchAlternatives (a # as) suffix s =
     (case matchPrefix (a @ suffix) s of
        Some rest \<Rightarrow> Some rest
      | None \<Rightarrow> matchAlternatives as suffix s)"

text \<open>\<open>base64Image.replace(/^data:image\/(png|jpeg|jpg);base64,/, "")\<close>.\<close>

definition cleanBase64 :: "string \<Rightarrow> string" where
  "cleanBase64 base64Image =
     (case matchPrefix ''data:image/'' base64Image of
        None \<Rightarrow> base64Image
      | Some r \<Rightarrow>
          (case matchAlternatives mimeAlternatives '';base64,'' r of
             None \<Rightarrow> base64Image
           | Some rest \<Rightarrow> rest))"

text \<open>
  \<open>trim\<close> removes white space at both ends; of the code units below 256 these are tab,
  line feed, vertical tab, form feed, carriage return, space and no-break space.
\<close>

definition isWhiteSpace :: "char \<Rightarrow> bool" where
  "isWhiteSpace c = (c \<in> set [CHR 0x09, CHR 0x0A, CHR 0x0B, CHR 0x0C, CHR 0x0D, CHR 0x20, CHR 0xA0])"

definition trim :: "string \<Rightarrow> string" where
  "trim s = rev (dropWhile isWhiteSpace (rev (dropWhile isWhiteSpace s)))"

definition fence :: string where
  "fence = [CHR 0x60, CHR 0x60, CHR 0x60]"

text \<open>\<open>s.replace(/^p/, "")\<close> and \<open>s.replace(/p$/, "")\<close> for a literal \<open>p\<close>.\<close>

definition replaceStart :: "string \<Rightarrow> string \<Rightarrow> string" where
  "replaceStart p s = (case matchPrefix p s of Some rest \<Rightarrow> rest | None \<Rightarrow> s)"

definition replaceEnd :: "string \<Rightarrow> string \<Rightarrow> string" where
  "replaceEnd p s = (case matchPrefix (rev p) (rev s) of Some rest \<Rightarrow> rev rest | None \<Rightarrow> s)"

text \<open>The removal of a Markdown code fence around the reply.\<close>

definition stripFence :: "string \<Rightarrow> string" where
  "stripFence t =
     (if startsWith t (fence @ ''json'') then replaceEnd fence (replaceStart (fence @ ''json'') t)
      else if startsWith t fence then replaceEnd fence (replaceStart fence t)
      else t)"

definition plainError :: "string \<Rightarrow> js_error" where
  "plainError msg = \<lparr>err_status = Undefined, err_code = Undefined, err_message = msg\<rparr>"

text \<open>
  The body of the \<open>try\<close> block for one attempt; \<open>Inl\<close> is a thrown value. The classifier
  is the parameter \<open>generateContent\<close>, given the payload and the number of the call, and
  \<open>JSON_parse\<close> returns the parsed result or the message of the SyntaxError it throws.
\<close>

definition tryClassify ::
  "(string \<Rightarrow> nat \<Rightarrow> outcome) \<Rightarrow> (string \<Rightarrow> string + AnalysisResult) \<Rightarrow> string \<Rightarrow> nat
     \<Rightarrow> js_error + AnalysisResult" where
  "tryClassify generateContent JSON_parse payload attempt =
     (case generateContent payload attempt of
        Rejected e \<Rightarrow> Inl e
      | Response None \<Rightarrow> Inl (plainError ''No response from AI'')
      | Response (Some t) \<Rightarrow>
          if t = [] then Inl (plainError ''No response from AI'')
          else (case JSON_parse (stripFence (trim t)) of
                  Inl msg \<Rightarrow> Inl (plainError msg)
                | Inr result \<Rightarrow> Inr result))"

text \<open>The test of the \<open>catch\<close> block for a transient overload.\<close>

definition isOverloaded :: "js_error \<Rightarrow> bool" where
  "isOverloaded error =
     (let errorCode = (if truthy (err_status error) then err_status error else err_code error);
          errorMessage = err_message error
      in errorCode = Num 503 \<or> includes' errorMessage ''overloaded''
         \<or> includes' errorMessage ''UNAVAILABLE'')"

definition MAX_RETRIES :: nat where
  "MAX_RETRIES = 3"

definition fallback :: "string \<Rightarrow> AnalysisResult" where
  "fallback msg = \<lparr>status = IDLE, reason = msg, confidence = 0\<rparr>"

text \<open>
  The \<open>while\<close> loop of \<open>analyzeFrame\<close>, with the events so far as an accumulator. The
  function is \<open>async\<close>: its promise resolves with the returned value, \<open>Inr\<close> here, or
  rejects with a value thrown and not caught, \<open>Inl\<close>. A value thrown in the \<open>try\<close> block
  is the \<open>Inl\<close> of \<open>tryClassify\<close> and goes to the \<open>catch\<close> block, which continues the loop
  or returns. The last branch is the \<open>return\<close> after the loop.
\<close>

function analyzeLoop ::
  "(string \<Rightarrow> nat \<Rightarrow> outcome) \<Rightarrow> (string \<Rightarrow> string + AnalysisResult) \<Rightarrow> string \<Rightarrow> nat
     \<Rightarrow> event list \<Rightarrow> js_error + (AnalysisResult \<times> event list)" where
  "analyzeLoop generateContent JSON_parse payload attempt tr =
     (if attempt < MAX_RETRIES then
        (case tryClassify generateContent JSON_parse payload attempt of
           Inr result \<Rightarrow> Inr (result, tr @ [Call payload])
         | Inl error \<Rightarrow>
             if isOverloaded error \<and> attempt < MAX_RETRIES - 1
             then analyzeLoop generateContent JSON_parse payload (attempt + 1)
                    (tr @ [Call payload, Wait (1000 * 2 ^ (attempt + 1 - 1))])
             else Inr (fallback (if isOverloaded error then ''Server busy, retrying...''
                                 else ''Analysis failed''),
                       tr @ [Call payload]))
      else Inr (fallback ''Service unavailable'', tr))"
  by pat_completeness auto
termination
  by (relation "measure (\<lambda>(g, p, payload, attempt, tr). MAX_RETRIES - attempt)") auto

declare analyzeLoop.simps [simp del]

definition analyzeFrame ::
  "(string \<Rightarrow> nat \<Rightarrow> outcome) \<Rightarrow> (string \<Rightarrow> string + AnalysisResult) \<Rightarrow> string
     \<Rightarrow> js_error + (AnalysisResult \<times> event list)" where
  "analyzeFrame generateContent JSON_parse base64Image =
     analyzeLoop generateContent JSON_parse (cleanBase64 base64Image) 0 []"

text \<open>Sample collaborators: a classifier that is always overloaded, one that answers.\<close>

definition busyClassifier :: "string \<Rightarrow> nat \<Rightarrow> outcome" where
  "busyClassifier payload k =
     Rejected \<lparr>err_status = Num 503, err_code = Undefined, err_message = ''overloaded''\<rparr>"

definition brokenClassifier :: "string \<Rightarrow> nat \<Rightarrow> outcome" where
  "brokenClassifier payload k =
     Rejected \<lparr>err_status = Num 400, err_code = Undefined, err_message = ''Bad Request''\<rparr>"

definition answeringClassifier :: "string \<Rightarrow> nat \<Rightarrow> outcome" where
  "answeringClassifier payload k = Response (Some ''studying'')"

definition sampleParse :: "string \<Rightarrow> string + AnalysisResult" where
  "sampleParse t =
     (if t = ''studying'' then Inr \<lparr>status = STUDYING, reason = ''Keep going'', confidence = 1\<rparr>
      else Inl ''Unexpected token'')"

text \<open>A classifier whose reply is empty, and one whose reply does not parse.\<close>

definition emptyClassifier :: "string \<Rightarrow> nat \<Rightarrow> outcome" where
  "emptyClassifier payload k = Response None"

definition garbledClassifier :: "string \<Rightarrow> nat \<Rightarrow> outcome" where
  "garbledClassifier payload k = Response (Some ''<html>'')"

text \<open>A classifier that is overloaded on the first call and answers after it.\<close>

definition recoveringClassifier :: "string \<Rightarrow> nat \<Rightarrow> outcome" where
  "recoveringClassifier payload k =
     (if k = 0 then busyClassifier payload k else answeringClassifier payload k)"

text \<open>A classifier that is overloaded on the first call and fails otherwise after it.\<close>

definition flakyClassifier :: "string \<Rightarrow> nat \<Rightarrow> outcome" where
  "flakyClassifier payload k =
     (if k = 0 then busyClassifier payload k else brokenClassifier payload k)"

text \<open>
  The events of \<open>k\<close> failed attempts, each followed by its wait, and of one more call.
\<close>

definition retryTrace :: "string \<Rightarrow> nat \<Rightarrow> event list" where
  "retryTrace payload k =
     concat (map (\<lambda>j. [Call payload, Wait (1000 * 2 ^ j)]) [0..<k]) @ [Call payload]"

section \<open>The sampler (WebcamMonitor component) inside the App\<close>













section \<open>Sample states, sample runs and the invariant of the sampler\<close>

text \<open>
  A clock for the examples, the App after a session has been started from its initial
  state (the sensitivity is 2), that session after the raw run Studying, Distracted,
  Distracted, Studying, and after 23 Studying and 17 Distracted results, all ingested at
  sensitivity 2.
\<close>

definition sampleClock :: "nat \<Rightarrow> int" where
  "sampleClock k = 1000 + int k"

definition startedApp :: AppState where
  "startedApp = toggleMonitoring sampleClock initialApp"

definition scenarioApp :: AppState where
  "scenarioApp =
     ingestAll (map (Pair 2) [raw STUDYING, raw DISTRACTED, raw DISTRACTED, raw STUDYING])
       startedApp"

definition tieApp :: AppState where
  "tieApp =
     ingestAll (map (Pair 2) (replicate 23 (raw STUDYING) @ replicate 17 (raw DISTRACTED)))
       startedApp"




section \<open>Facts about the double-precision model\<close>

text \<open>
  The rounding to an integer errs by at most one half and never crosses an integer.
\<close>

lemma rne_error: "\<bar>of_int (rne y) - y\<bar> \<le> 1/2"
  unfolding rne_def Let_def by (auto simp: abs_if) linarith+

lemma rne_le: "y \<le> of_int n \<Longrightarrow> rne y \<le> n"
  unfolding rne_def Let_def
  by (auto simp: floor_le_iff le_floor_iff)

lemma rne_ge: "of_int n \<le> y \<Longrightarrow> n \<le> rne y"
  unfolding rne_def Let_def
  by (auto simp: floor_le_iff le_floor_iff) linarith

text \<open>
  \<open>binexp\<close> is the binary exponent: \<open>2 ^ binexp x \<le> x < 2 ^ (binexp x + 1)\<close>.
\<close>

lemma bitlen_rat_bounds:
  assumes "0 < (p::int)"
  shows "(2::rat) powi (bitlen p - 1) \<le> of_int p" and "of_int p < (2::rat) powi bitlen p"
proof -
  from bitlen_bounds[OF assms] have a: "2 ^ nat (bitlen p - 1) \<le> p" and b: "p < 2 ^ nat (bitlen p)"
    by auto
  have ge1: "1 \<le> bitlen p" using assms bitlen_eq_zero_iff[of p] bitlen_nonneg[of p] by linarith
  have "(2::rat) powi (bitlen p - 1) = 2 ^ nat (bitlen p - 1)"
    using ge1 by (simp add: power_int_def)
  also have "\<dots> = of_int (2 ^ nat (bitlen p - 1))" by simp
  also have "\<dots> \<le> of_int p" using a by (simp only: of_int_le_iff)
  finally show "(2::rat) powi (bitlen p - 1) \<le> of_int p" .
  have "(of_int p::rat) < of_int (2 ^ nat (bitlen p))" using b by (simp only: of_int_less_iff)
  also have "\<dots> = 2 ^ nat (bitlen p)" by simp
  also have "\<dots> = 2 powi bitlen p" using ge1 by (simp add: power_int_def)
  finally show "of_int p < (2::rat) powi bitlen p" .
qed

lemma binexp_bounds:
  assumes "0 < x"
  shows "2 powi binexp x \<le> x \<and> x < 2 powi (binexp x + 1)"
proof -
  obtain p q where pq: "quotient_of x = (p, q)" by (cases "quotient_of x")
  have q: "0 < q" using quotient_of_denom_pos[OF pq] .
  have x: "x = of_int p / of_int q" using quotient_of_div[OF pq] .
  have p: "0 < p" using assms q x by (simp add: zero_less_divide_iff)
  define e where "e = bitlen p - bitlen q"
  note P = bitlen_rat_bounds[OF p] and Q = bitlen_rat_bounds[OF q]
  have qpos: "(0::rat) < of_int q" using q by simp
  have lo: "2 powi (e - 1) \<le> x"
  proof -
    have "(2::rat) powi (e - 1) * of_int q \<le> 2 powi (e - 1) * 2 powi bitlen q"
      using Q(2) by (intro mult_left_mono) auto
    also have "\<dots> = 2 powi (bitlen p - 1)"
      by (simp add: e_def flip: power_int_add)
    also have "\<dots> \<le> of_int p" by (rule P(1))
    finally show ?thesis using qpos by (simp add: x pos_le_divide_eq)
  qed
  have hi: "x < 2 powi (e + 1)"
  proof -
    have "of_int p < (2::rat) powi bitlen p" by (rule P(2))
    also have "\<dots> = 2 powi (e + 1) * 2 powi (bitlen q - 1)"
      by (simp add: e_def flip: power_int_add)
    also have "\<dots> \<le> 2 powi (e + 1) * of_int q"
      using Q(1) by (intro mult_left_mono) auto
    finally show ?thesis using qpos by (simp add: x pos_divide_less_eq)
  qed
  show ?thesis
  proof (cases "2 powi e \<le> x")
    case True
    then show ?thesis using hi by (simp add: binexp_def pq e_def)
  next
    case False
    then show ?thesis using lo by (simp add: binexp_def pq e_def)
  qed
qed

text \<open>
  Rounding to a double keeps the sign, never crosses an integer below \<open>2 ^ 53\<close>, and
  has relative error at most \<open>2 ^ -53\<close> in the normal range (plus \<open>2 ^ -1075\<close> below
  it).
\<close>

lemma fl_zero: "fl 0 = 0"
  by (simp add: fl_def)

lemma fl_pos:
  assumes "0 < x"
  shows "fl x = of_int (rne (x / 2 powi (max (binexp x) (- 1022) - 52)))
                  * 2 powi (max (binexp x) (- 1022) - 52)"
  using assms by (simp add: fl_def Let_def)

lemma fl_nonneg:
  assumes "0 \<le> x"
  shows "0 \<le> fl x"
proof (cases "x = 0")
  case True
  then show ?thesis by (simp add: fl_def)
next
  case False
  with assms have x: "0 < x" by simp
  define u :: rat where "u = 2 powi (max (binexp x) (- 1022) - 52)"
  have u: "0 < u" by (simp add: u_def)
  have "of_int 0 \<le> x / u" using x u by simp
  then have "0 \<le> rne (x / u)" by (rule rne_ge)
  then show ?thesis using u by (simp add: fl_pos[OF x] flip: u_def)
qed

lemma fl_le_nat:
  assumes x: "0 < x" and le: "x \<le> of_nat N" and N: "N < 2 ^ 53"
  shows "fl x \<le> of_nat N"
proof -
  define e where "e = max (binexp x) (- 1022)"
  define u :: rat where "u = 2 powi (e - 52)"
  have u: "0 < u" by (simp add: u_def)
  have "2 powi binexp x \<le> x" using binexp_bounds[OF x] by simp
  also have "x \<le> of_nat N" by (rule le)
  also have "(of_nat N :: rat) < of_nat (2 ^ 53)" using N by (simp only: of_nat_less_iff)
  also have "\<dots> = 2 powi 53" by simp
  finally have "binexp x < 53"
    by (metis linorder_not_less one_le_numeral power_int_increasing)
  then have e: "e \<le> 52" by (simp add: e_def)
  define k where "k = nat (52 - e)"
  have inv: "1 / u = of_int (2 ^ k)"
    using e by (simp add: u_def k_def power_int_def field_simps)
  have "x / u = x * (1 / u)" by simp
  also have "\<dots> = x * of_int (2 ^ k)" by (simp only: inv)
  also have "\<dots> \<le> of_nat N * of_int (2 ^ k)"
    using le by (intro mult_right_mono) auto
  also have "\<dots> = of_int (int N * 2 ^ k)" by simp
  finally have "rne (x / u) \<le> int N * 2 ^ k" by (rule rne_le)
  then have "(of_int (rne (x / u)) :: rat) \<le> of_int (int N * 2 ^ k)"
    by (simp only: of_int_le_iff)
  then have "of_int (rne (x / u)) * u \<le> of_int (int N * 2 ^ k) * u"
    using u by (intro mult_right_mono) auto
  also have "\<dots> = of_nat N * (of_int (2 ^ k) * u)" by simp
  also have "of_int (2 ^ k) * u = 1" using inv u by (simp add: field_simps)
  finally show ?thesis by (simp add: fl_pos[OF x] flip: u_def e_def)
qed

lemma fl_error:
  assumes x: "0 < x" and norm: "2 powi (- 1022) \<le> x"
  shows "\<bar>fl x - x\<bar> \<le> x / 2 ^ 53"
proof -
  have b: "2 powi binexp x \<le> x" "x < 2 powi (binexp x + 1)"
    using binexp_bounds[OF x] by simp_all
  have "(2::rat) powi (- 1022) < 2 powi (binexp x + 1)" using norm b(2) by simp
  then have "- 1022 < binexp x + 1"
    by (metis linorder_not_less one_le_numeral power_int_increasing)
  then have e: "max (binexp x) (- 1022) = binexp x" by simp
  define u :: rat where "u = 2 powi (binexp x - 52)"
  have u: "0 < u" by (simp add: u_def)
  have fl: "fl x = of_int (rne (x / u)) * u" by (simp add: fl_pos[OF x] e u_def)
  have "fl x - x = (of_int (rne (x / u)) - x / u) * u"
    using u by (simp add: fl left_diff_distrib)
  then have "\<bar>fl x - x\<bar> = \<bar>of_int (rne (x / u)) - x / u\<bar> * u"
    using u by (simp add: abs_mult)
  also have "\<dots> \<le> 1 / 2 * u" using rne_error[of "x / u"] u by (intro mult_right_mono) auto
  also have "\<dots> = 2 powi binexp x / 2 ^ 53"
    by (simp add: u_def power_int_diff)
  also have "\<dots> \<le> x / 2 ^ 53" using b(1) by (simp add: divide_right_mono)
  finally show ?thesis .
qed

lemma fl_error_abs:
  assumes x: "0 < x"
  shows "\<bar>fl x - x\<bar> \<le> x / 2 ^ 53 + 2 powi (- 1075)"
proof (cases "2 powi (- 1022) \<le> x")
  case True
  have "\<bar>fl x - x\<bar> \<le> x / 2 ^ 53" using x True by (rule fl_error)
  moreover have "(0::rat) \<le> 2 powi (- 1075)" by simp
  ultimately show ?thesis by linarith
next
  case False
  have "binexp x < - 1022"
  proof (rule ccontr)
    assume "\<not> binexp x < - 1022"
    then have "(2::rat) powi (- 1022) \<le> 2 powi binexp x"
      by (intro power_int_increasing) auto
    also have "\<dots> \<le> x" using binexp_bounds[OF x] by simp
    finally show False using False by simp
  qed
  then have e: "max (binexp x) (- 1022) = - 1022" by simp
  define u :: rat where "u = 2 powi (- 1074)"
  have u: "0 < u" by (simp add: u_def)
  have fl: "fl x = of_int (rne (x / u)) * u" by (simp add: fl_pos[OF x] e u_def)
  have "fl x - x = (of_int (rne (x / u)) - x / u) * u"
    using u by (simp add: fl left_diff_distrib)
  then have "\<bar>fl x - x\<bar> = \<bar>of_int (rne (x / u)) - x / u\<bar> * u"
    using u by (simp add: abs_mult)
  also have "\<dots> \<le> 1 / 2 * u" using rne_error[of "x / u"] u by (intro mult_right_mono) auto
  also have "\<dots> = 2 powi (- 1075)"
    unfolding u_def by (simp add: power_int_def field_simps)
  finally have "\<bar>fl x - x\<bar> \<le> 2 powi (- 1075)" .
  moreover have "0 \<le> x / 2 ^ 53" using x by simp
  ultimately show ?thesis by linarith
qed

lemma fl_unit_interval:
  assumes "0 \<le> x" and "x \<le> 1"
  shows "0 \<le> fl x \<and> fl x \<le> 1"
proof (cases "x = 0")
  case True
  then show ?thesis by (simp add: fl_zero)
next
  case False
  with assms have "0 < x" and "x \<le> of_nat 1" by simp_all
  then have "fl x \<le> of_nat 1" by (rule fl_le_nat) simp
  then show ?thesis using fl_nonneg[OF assms(1)] by simp
qed

lemma fl_percent:
  assumes "0 \<le> x" and "x \<le> 100"
  shows "0 \<le> fl x \<and> fl x \<le> 100"
proof (cases "x = 0")
  case True
  then show ?thesis by (simp add: fl_zero)
next
  case False
  with assms have "0 < x" and "x \<le> of_nat 100" by simp_all
  then have "fl x \<le> of_nat 100" by (rule fl_le_nat) simp
  then show ?thesis using fl_nonneg[OF assms(1)] by simp
qed

lemma abs_diff_lower: "\<bar>a - b\<bar> \<le> d \<Longrightarrow> b - d \<le> (a::rat)"
  by linarith

section \<open>Debouncing and statistics\<close>

lemma handle_active [simp]: "isMonitoringRef (handleStatusChange sens r s) = isMonitoringRef s"
  by (simp add: handleStatusChange_def Let_def)

lemma handle_sensitivity [simp]: "sensitivity (handleStatusChange sens r s) = sensitivity s"
  by (simp add: handleStatusChange_def Let_def)

lemma handle_monitoring [simp]: "isMonitoring (handleStatusChange sens r s) = isMonitoring s"
  by (simp add: handleStatusChange_def Let_def)

lemma ingest_active [simp]: "isMonitoringRef (ingestAll ps s) = isMonitoringRef s"
  by (induction ps s rule: ingestAll.induct) simp_all

lemma ingest_sensitivity [simp]: "sensitivity (ingestAll ps s) = sensitivity s"
  by (induction ps s rule: ingestAll.induct) simp_all

lemma ingest_monitoring [simp]: "isMonitoring (ingestAll ps s) = isMonitoring s"
  by (induction ps s rule: ingestAll.induct) simp_all

lemma ingest_append:
  "ingestAll (ps @ [(sens, r)]) s = handleStatusChange sens r (ingestAll ps s)"
  by (induction ps s rule: ingestAll.induct) simp_all





lemma startedApp_fields:
  "isMonitoringRef startedApp" "isMonitoring startedApp"
  "consecutiveBadChecksRef startedApp = 0"
  "statsRef startedApp = zeroStats" "sensitivity startedApp = 2"
  "currentResult startedApp = idleResult"
  by (simp_all add: startedApp_def toggleMonitoring_def initialApp_def)

lemma recordStats_fields:
  "total' (recordStats st stats) = total' stats + 1"
  "studying (recordStats st stats) = studying stats + (if st = STUDYING then 1 else 0)"
  "distracted (recordStats st stats) = distracted stats + (if st = DISTRACTED then 1 else 0)"
  "absent (recordStats st stats) = absent stats + (if st = ABSENT then 1 else 0)"
  by (simp_all add: recordStats_def Let_def)

lemma handle_stats:
  "isMonitoringRef s \<Longrightarrow>
   statsRef (handleStatusChange sens r s) = recordStats (status r) (statsRef s)"
  by (simp add: handleStatusChange_def Let_def)

lemma countStatus_snoc:
  "countStatus st (rs @ [r]) = countStatus st rs + (if status r = st then 1 else 0)"
  by (simp add: countStatus_def)

lemma ingest_stats:
  assumes "isMonitoringRef s"
  shows "total' (statsRef (ingestAll ps s)) = total' (statsRef s) + length ps
       \<and> studying (statsRef (ingestAll ps s))
           = studying (statsRef s) + countStatus STUDYING (map snd ps)
       \<and> distracted (statsRef (ingestAll ps s))
           = distracted (statsRef s) + countStatus DISTRACTED (map snd ps)
       \<and> absent (statsRef (ingestAll ps s))
           = absent (statsRef s) + countStatus ABSENT (map snd ps)"
proof (induction ps rule: rev_induct)
  case Nil
  show ?case by (simp add: countStatus_def)
next
  case (snoc p ps)
  have a: "isMonitoringRef (ingestAll ps s)" using assms by simp
  show ?case
    using snoc
    by (cases p)
      (simp add: ingest_append handle_stats[OF a] recordStats_fields countStatus_snoc)
qed

lemma count_partition:
  "length rs = countStatus STUDYING rs + countStatus DISTRACTED rs + countStatus ABSENT rs
               + countStatus IDLE rs"
proof (induction rs)
  case Nil
  show ?case by (simp add: countStatus_def)
next
  case (Cons r rs)
  then show ?case by (cases "status r") (simp_all add: countStatus_def)
qed

lemma scenarioApp_fields:
  "isMonitoring scenarioApp"
  "statsRef scenarioApp = \<lparr>studying = 2, distracted = 2, absent = 0, total' = 4\<rparr>"
  by (simp_all add: scenarioApp_def startedApp_fields raw_def handleStatusChange_def
      recordStats_def zeroStats_def Let_def)

text \<open>
  C3. From the start of a session (the session active, the statistics zero) and for every
  sequence \<open>ps\<close> of ingested raw results, whatever sensitivity each was ingested with: the
  total equals the number of results ingested, each bucket counts the results of its
  status, so the total is the sum of the three buckets and the number of Idle results; and
  one more ingestion adds exactly 1 to the total and 1 to the bucket of its status, if it
  has one.
\<close>

theorem stats_accounting:
  assumes active: "isMonitoringRef s0" and zero: "statsRef s0 = zeroStats"
  shows "total' (statsRef (ingestAll ps s0)) = length ps
       \<and> studying (statsRef (ingestAll ps s0)) = countStatus STUDYING (map snd ps)
       \<and> distracted (statsRef (ingestAll ps s0)) = countStatus DISTRACTED (map snd ps)
       \<and> absent (statsRef (ingestAll ps s0)) = countStatus ABSENT (map snd ps)
       \<and> total' (statsRef (ingestAll ps s0)) =
           studying (statsRef (ingestAll ps s0)) + distracted (statsRef (ingestAll ps s0))
           + absent (statsRef (ingestAll ps s0)) + countStatus IDLE (map snd ps)
       \<and> total' (statsRef (handleStatusChange sens r (ingestAll ps s0))) =
           total' (statsRef (ingestAll ps s0)) + 1
       \<and> studying (statsRef (handleStatusChange sens r (ingestAll ps s0))) =
           studying (statsRef (ingestAll ps s0)) + (if status r = STUDYING then 1 else 0)
       \<and> distracted (statsRef (handleStatusChange sens r (ingestAll ps s0))) =
           distracted (statsRef (ingestAll ps s0)) + (if status r = DISTRACTED then 1 else 0)
       \<and> absent (statsRef (handleStatusChange sens r (ingestAll ps s0))) =
           absent (statsRef (ingestAll ps s0)) + (if status r = ABSENT then 1 else 0)"
proof -
  have a: "isMonitoringRef (ingestAll ps s0)" using active by simp
  have i: "total' (statsRef (ingestAll ps s0)) = length ps"
    "studying (statsRef (ingestAll ps s0)) = countStatus STUDYING (map snd ps)"
    "distracted (statsRef (ingestAll ps s0)) = countStatus DISTRACTED (map snd ps)"
    "absent (statsRef (ingestAll ps s0)) = countStatus ABSENT (map snd ps)"
    using ingest_stats[OF active, of ps] by (simp_all add: zero zeroStats_def)
  show ?thesis
    using count_partition[of "map snd ps"]
    by (simp add: i handle_stats[OF a] recordStats_fields)
qed

theorem stats_accounting_witness:
  "isMonitoringRef startedApp \<and> statsRef startedApp = zeroStats
   \<and> statsRef (ingestAll
        (map (Pair 2) [raw STUDYING, raw IDLE, raw DISTRACTED, raw IDLE, raw ABSENT]) startedApp)
       = \<lparr>studying = 1, distracted = 1, absent = 1, total' = 5\<rparr>
   \<and> countStatus IDLE [raw STUDYING, raw IDLE, raw DISTRACTED, raw IDLE, raw ABSENT] = 2
   \<and> statsRef (handleStatusChange 2 (raw IDLE) (ingestAll
        (map (Pair 2) [raw STUDYING, raw IDLE, raw DISTRACTED, raw IDLE, raw ABSENT]) startedApp))
       = \<lparr>studying = 1, distracted = 1, absent = 1, total' = 6\<rparr>"
  using stats_accounting [of startedApp
      "map (Pair 2) [raw STUDYING, raw IDLE, raw DISTRACTED, raw IDLE, raw ABSENT]" 2 "raw IDLE"]
  by (simp add: startedApp_fields countStatus_def raw_def handleStatusChange_def
      recordStats_def zeroStats_def Let_def)

text \<open>
  C7. A raw result that arrives while the session is not active (\<open>isMonitoringRef\<close> is
  false) is ignored, whichever callback delivers it: the whole state, so the four
  counters, the consecutive-bad counter and the stable status, is unchanged.
\<close>

theorem late_result_ignored:
  assumes "\<not> isMonitoringRef s"
  shows "handleStatusChange sens result s = s"
  using assms by (simp add: handleStatusChange_def)

theorem late_result_ignored_witness:
  "\<not> isMonitoringRef (toggleMonitoring sampleClock scenarioApp)
   \<and> handleStatusChange 2 (raw DISTRACTED) (toggleMonitoring sampleClock scenarioApp)
       = toggleMonitoring sampleClock scenarioApp"
  using late_result_ignored [of "toggleMonitoring sampleClock scenarioApp" 2 "raw DISTRACTED"]
  by (simp add: toggleMonitoring_def scenarioApp_fields Let_def)



section \<open>The focus score and the ducked volume\<close>

lemma score_product_range:
  assumes "studying stats \<le> total' stats" and "0 < total' stats"
  shows "0 \<le> fmul (fdiv (of_nat (studying stats)) (of_nat (total' stats))) 100
       \<and> fmul (fdiv (of_nat (studying stats)) (of_nat (total' stats))) 100 \<le> 100"
proof -
  define q :: rat where "q = of_nat (studying stats) / of_nat (total' stats)"
  have "0 \<le> q" by (simp add: q_def)
  moreover have "q \<le> 1" using assms by (simp add: q_def)
  ultimately have "0 \<le> fl q \<and> fl q \<le> 1" by (rule fl_unit_interval)
  then have "0 \<le> fl q * 100" and "fl q * 100 \<le> 100" by simp_all
  then have "0 \<le> fl (fl q * 100) \<and> fl (fl q * 100) \<le> 100" by (rule fl_percent)
  then show ?thesis by (simp add: fmul_def fdiv_def q_def)
qed

lemma score_range:
  assumes "studying stats \<le> total' stats"
  shows "0 \<le> calcFocusScore stats \<and> calcFocusScore stats \<le> 100"
proof (cases "0 < total' stats")
  case False
  then show ?thesis by (simp add: calcFocusScore_def)
next
  case True
  define v where "v = fmul (fdiv (of_nat (studying stats)) (of_nat (total' stats))) 100"
  have v: "0 \<le> v \<and> v \<le> 100"
    unfolding v_def using assms True by (rule score_product_range)
  have "calcFocusScore stats = \<lfloor>v + 1 / 2\<rfloor>"
    using True by (simp add: calcFocusScore_def Math_round_def v_def)
  moreover have "0 \<le> \<lfloor>v + 1 / 2\<rfloor>" using v by (simp add: le_floor_iff)
  moreover have "\<lfloor>v + 1 / 2\<rfloor> \<le> 100" using v by (simp add: floor_le_iff)
  ultimately show ?thesis by simp
qed

lemma score_product_error:
  assumes s: "0 < s" and st: "s \<le> t" and t: "t \<le> 2 ^ 44"
  shows "\<bar>fmul (fdiv (of_nat s) (of_nat t)) 100 - 100 * of_nat s / of_nat t\<bar> \<le> 200 / 2 ^ 53"
proof -
  define q :: rat where "q = of_nat s / of_nat t"
  have tpos: "0 < t" using s st by simp
  have q: "0 < q" "q \<le> 1" using s st tpos by (simp_all add: q_def)
  have "(of_nat t :: rat) \<le> of_nat (2 ^ 44)" using t by (simp only: of_nat_le_iff)
  then have t44: "(of_nat t :: rat) \<le> 2 ^ 44" by simp
  have "1 / 2 ^ 44 \<le> 1 / (of_nat t :: rat)"
    using t44 tpos by (intro divide_left_mono) auto
  also have "\<dots> \<le> q"
    using s tpos by (simp add: q_def divide_right_mono)
  finally have qlow: "1 / 2 ^ 44 \<le> q" .
  have "(2::rat) powi (- 1022) \<le> 2 powi (- 44)" by (intro power_int_increasing) auto
  also have "\<dots> = 1 / 2 ^ 44" by (simp add: power_int_def field_simps)
  finally have small: "(2::rat) powi (- 1022) \<le> 1 / 2 ^ 44" .
  have e1: "\<bar>fl q - q\<bar> \<le> q / 2 ^ 53"
    using q(1) small qlow by (intro fl_error) auto
  then have e1': "\<bar>fl q - q\<bar> \<le> 1 / 2 ^ 53"
    using q(2) by (meson divide_right_mono order_trans zero_le_numeral zero_le_power)
  have r: "0 \<le> fl q \<and> fl q \<le> 1" using q by (intro fl_unit_interval) auto
  have "q - q / 2 ^ 53 \<le> fl q" using e1 by (rule abs_diff_lower)
  moreover have "q / 2 \<le> q - q / 2 ^ 53" using q(1) by (simp add: field_simps)
  ultimately have "q / 2 \<le> fl q" by simp
  then have flq_low: "1 / 2 ^ 45 \<le> fl q" using qlow by simp
  then have p: "0 < fl q * 100" and "1 / 2 ^ 44 \<le> fl q * 100" by simp_all
  then have n2: "2 powi (- 1022) \<le> fl q * 100" using small by simp
  have "\<bar>fl (fl q * 100) - fl q * 100\<bar> \<le> fl q * 100 / 2 ^ 53"
    using p n2 by (rule fl_error)
  also have "\<dots> \<le> 100 / 2 ^ 53" using r by (simp add: divide_right_mono)
  finally have e2: "\<bar>fl (fl q * 100) - fl q * 100\<bar> \<le> 100 / 2 ^ 53" .
  have "\<bar>fl (fl q * 100) - 100 * q\<bar> \<le> \<bar>fl (fl q * 100) - fl q * 100\<bar> + 100 * \<bar>fl q - q\<bar>"
    by (simp add: abs_le_iff abs_if) 
  also have "\<dots> \<le> 100 / 2 ^ 53 + 100 * (1 / 2 ^ 53)"
    using e2 e1' by (intro add_mono mult_left_mono) auto
  finally show ?thesis by (simp add: fmul_def fdiv_def q_def)
qed

lemma round_half_grid:
  fixes v :: rat and a t :: int
  assumes t: "0 < t" and close: "\<bar>v - of_int a / (2 * of_int t)\<bar> < 1 / (2 * of_int t)"
  shows "\<bar>of_int \<lfloor>v + 1 / 2\<rfloor> - of_int a / (2 * of_int t)\<bar> \<le> (1 / 2 :: rat)"
proof -
  define n where "n = \<lfloor>v + 1 / 2\<rfloor>"
  define x :: rat where "x = of_int a / (2 * of_int t)"
  define h :: rat where "h = 1 / (2 * of_int t)"
  have T: "(0::rat) < 2 * of_int t" using t by simp
  have n: "of_int n \<le> v + 1 / 2" "v + 1 / 2 < of_int n + 1"
    unfolding n_def by linarith+
  have cl: "\<bar>v - x\<bar> < h" using close by (simp add: x_def h_def)
  have upper: "x \<le> of_int n + 1 / 2"
  proof (rule ccontr)
    assume "\<not> x \<le> of_int n + 1 / 2"
    then have "of_int n + 1 / 2 < x" by simp
    then have "(of_int n + 1 / 2) * (2 * of_int t) < (of_int a :: rat)"
      using T by (simp add: x_def pos_less_divide_eq)
    then have "(of_int ((2 * n + 1) * t) :: rat) < of_int a"
      by (simp add: algebra_simps)
    then have "(2 * n + 1) * t < a" by (simp only: of_int_less_iff)
    then have "(2 * n + 1) * t + 1 \<le> a" by simp
    then have "(of_int ((2 * n + 1) * t + 1) :: rat) \<le> of_int a" by (simp only: of_int_le_iff)
    then have "(of_int n + 1 / 2) * (2 * of_int t) + 1 \<le> (of_int a :: rat)"
      by (simp add: algebra_simps)
    then have "((of_int n + 1 / 2) * (2 * of_int t) + 1) / (2 * of_int t) \<le> (x :: rat)"
      using T by (simp only: x_def divide_right_mono less_imp_le)
    moreover have "((of_int n + 1 / 2) * (2 * of_int t) + 1) / (2 * of_int t) = of_int n + 1 / 2 + (h :: rat)"
      using T by (simp add: h_def add_divide_distrib)
    ultimately have "of_int n + 1 / 2 + h \<le> x" by simp
    then show False using n(2) cl by linarith
  qed
  have lower: "of_int n - 1 / 2 \<le> x"
  proof (rule ccontr)
    assume "\<not> of_int n - 1 / 2 \<le> x"
    then have "x < of_int n - 1 / 2" by simp
    then have "(of_int a :: rat) < (of_int n - 1 / 2) * (2 * of_int t)"
      using T by (simp add: x_def pos_divide_less_eq)
    then have "(of_int a :: rat) < of_int ((2 * n - 1) * t)"
      by (simp add: algebra_simps)
    then have "a < (2 * n - 1) * t" by (simp only: of_int_less_iff)
    then have "a \<le> (2 * n - 1) * t - 1" by simp
    then have "(of_int a :: rat) \<le> of_int ((2 * n - 1) * t - 1)" by (simp only: of_int_le_iff)
    then have "(of_int a :: rat) \<le> (of_int n - 1 / 2) * (2 * of_int t) - 1"
      by (simp add: algebra_simps)
    then have "x \<le> ((of_int n - 1 / 2) * (2 * of_int t) - 1) / (2 * of_int t)"
      using T by (simp only: x_def divide_right_mono less_imp_le)
    moreover have "((of_int n - 1 / 2) * (2 * of_int t) - 1) / (2 * of_int t) = of_int n - 1 / 2 - (h :: rat)"
      using T by (simp add: h_def diff_divide_distrib)
    ultimately have "x \<le> of_int n - 1 / 2 - h" by simp
    then show False using n(1) cl by linarith
  qed
  from upper lower show ?thesis
    unfolding n_def [symmetric] x_def [symmetric] by linarith
qed

lemma score_nearest:
  assumes tpos: "0 < total' stats" and st: "studying stats \<le> total' stats"
    and t: "total' stats \<le> 2 ^ 44"
  shows "\<bar>of_int (calcFocusScore stats)
          - 100 * of_nat (studying stats) / of_nat (total' stats)\<bar> \<le> (1 / 2 :: rat)"
proof (cases "studying stats = 0")
  case True
  have "\<lfloor>1 / 2 :: rat\<rfloor> = 0" by (simp add: floor_eq_iff)
  with True show ?thesis using tpos
    by (simp add: calcFocusScore_def fdiv_def fmul_def fl_zero Math_round_def)
next
  case False
  define s' where "s' = studying stats"
  define t' where "t' = total' stats"
  define v where "v = fmul (fdiv (of_nat s') (of_nat t')) 100"
  have s: "0 < s'" using False by (simp add: s'_def)
  have err: "\<bar>v - 100 * of_nat s' / of_nat t'\<bar> \<le> 200 / 2 ^ 53"
    unfolding v_def using s st t by (intro score_product_error) (simp_all add: s'_def t'_def)
  have "(of_nat t' :: rat) \<le> of_nat (2 ^ 44)" using t by (simp only: of_nat_le_iff t'_def)
  then have t44: "2 * (of_nat t' :: rat) \<le> 2 ^ 45" by simp
  have tp: "(0::rat) < 2 * of_nat t'" using tpos by (simp add: t'_def)
  have "(200::rat) / 2 ^ 53 < 1 / 2 ^ 45" by simp
  also have "\<dots> \<le> 1 / (2 * of_nat t')"
    using t44 tp by (intro divide_left_mono) auto
  finally have c: "\<bar>v - 100 * of_nat s' / of_nat t'\<bar> < 1 / (2 * of_nat t')"
    using err by simp
  have "\<bar>v - of_int (200 * int s') / (2 * of_int (int t'))\<bar> < 1 / (2 * of_int (int t'))"
    using c by simp
  then have "\<bar>of_int \<lfloor>v + 1 / 2\<rfloor> - of_int (200 * int s') / (2 * of_int (int t'))\<bar> \<le> (1 / 2 :: rat)"
    using tpos by (intro round_half_grid) (simp_all add: t'_def)
  then have "\<bar>of_int \<lfloor>v + 1 / 2\<rfloor> - 100 * of_nat s' / of_nat t'\<bar> \<le> (1 / 2 :: rat)"
    by simp
  moreover have "calcFocusScore stats = \<lfloor>v + 1 / 2\<rfloor>"
    using tpos by (simp add: calcFocusScore_def Math_round_def v_def s'_def t'_def)
  ultimately show ?thesis by (simp add: s'_def t'_def)
qed

lemma toggle_stop_session:
  assumes "isMonitoring s"
  shows "sessions (toggleMonitoring Date_now s) \<noteq> []"
    and "focusScore (hd (sessions (toggleMonitoring Date_now s))) = calcFocusScore (statsRef s)"
    and "statusCounts (hd (sessions (toggleMonitoring Date_now s))) = statsRef s"
    and "\<not> isMonitoringRef (toggleMonitoring Date_now s)"
  using assms by (simp_all add: toggleMonitoring_def Let_def)

lemma nearest_is_round:
  fixes x :: rat
  assumes "\<bar>of_int n - x\<bar> \<le> 1 / 2"
  shows "n = Math_round x \<or> (n = Math_round x - 1 \<and> of_int (Math_round x) = x + 1 / 2)"
proof -
  define m where "m = \<lfloor>x + 1 / 2\<rfloor>"
  have m: "of_int m \<le> x + 1 / 2" "x + 1 / 2 < of_int m + 1"
    unfolding m_def by linarith+
  have n: "of_int n - 1 / 2 \<le> x" "x \<le> of_int n + 1 / 2"
    using assms by linarith+
  have "(of_int n :: rat) < of_int m + 1" using m(2) n(1) by linarith
  then have "n < m + 1" by (metis of_int_1 of_int_add of_int_less_iff)
  moreover have "(of_int m :: rat) \<le> of_int n + 1" using m(1) n(2) by linarith
  then have "m \<le> n + 1" by (metis of_int_1 of_int_add of_int_le_iff)
  ultimately consider "n = m" | "n = m - 1" by linarith
  then show ?thesis
  proof cases
    case 1
    then show ?thesis by (simp add: Math_round_def m_def)
  next
    case 2
    then have "(of_int n :: rat) = of_int m - 1" by simp
    with m(1) n(2) have "of_int m = x + 1 / 2" by linarith
    with 2 show ?thesis by (simp add: Math_round_def m_def)
  qed
qed

lemma score_eval_half: "calcFocusScore \<lparr>studying = 2, distracted = 2, absent = 0, total' = 4\<rparr> = 50"
  by code_simp

lemma score_eval_tie:
  "calcFocusScore \<lparr>studying = 23, distracted = 17, absent = 0, total' = 40\<rparr> = 57"
  by code_simp

lemma round_eval_tie: "Math_round (100 * 23 / 40) = 58" "rne (100 * 23 / 40) = 58"
  by code_simp+

lemma round_eval_tie_double: "Math_round (fdiv (fmul 100 (of_nat 23)) (of_nat 40)) = 58"
  by code_simp

lemma tieApp_eval:
  "isMonitoring tieApp"
  "statsRef tieApp = \<lparr>studying = 23, distracted = 17, absent = 0, total' = 40\<rparr>"
  "focusScore (hd (sessions (toggleMonitoring sampleClock tieApp))) = 57"
  by code_simp+

text \<open>
  C4, as amended. Stopping a session records the score
  \<open>Math.round((studying / total) * 100)\<close>, computed in double precision. It is 0 when the
  total is 0, and lies between 0 and 100 when \<open>studying \<le> total\<close>. For a total of at most
  \<open>2 ^ 44\<close> it is an integer nearest to the exact value \<open>100 * studying / total\<close>: it equals
  that value rounded half up, except that where the exact value lies halfway between two
  integers it may be the lower one.
\<close>

theorem focus_score_on_stop:
  assumes "isMonitoring s"
  shows "focusScore (hd (sessions (toggleMonitoring Date_now s))) = calcFocusScore (statsRef s)
       \<and> (total' (statsRef s) = 0 \<longrightarrow> calcFocusScore (statsRef s) = 0)
       \<and> (studying (statsRef s) \<le> total' (statsRef s) \<longrightarrow>
            0 \<le> calcFocusScore (statsRef s) \<and> calcFocusScore (statsRef s) \<le> 100)
       \<and> (0 < total' (statsRef s) \<and> studying (statsRef s) \<le> total' (statsRef s)
            \<and> total' (statsRef s) \<le> 2 ^ 44 \<longrightarrow>
            \<bar>of_int (calcFocusScore (statsRef s))
               - 100 * of_nat (studying (statsRef s)) / of_nat (total' (statsRef s))\<bar>
              \<le> (1 / 2 :: rat)
            \<and> (calcFocusScore (statsRef s)
                  = Math_round (100 * of_nat (studying (statsRef s)) / of_nat (total' (statsRef s)))
               \<or> calcFocusScore (statsRef s)
                  = Math_round (100 * of_nat (studying (statsRef s)) / of_nat (total' (statsRef s))) - 1
                 \<and> of_int (Math_round (100 * of_nat (studying (statsRef s))
                                        / of_nat (total' (statsRef s))))
                   = (100 * of_nat (studying (statsRef s)) / of_nat (total' (statsRef s)) + 1 / 2
                      :: rat)))"
proof (intro conjI impI)
  show "focusScore (hd (sessions (toggleMonitoring Date_now s))) = calcFocusScore (statsRef s)"
    using assms by (rule toggle_stop_session)
next
  assume "total' (statsRef s) = 0"
  then show "calcFocusScore (statsRef s) = 0" by (simp add: calcFocusScore_def)
next
  assume "studying (statsRef s) \<le> total' (statsRef s)"
  then show "0 \<le> calcFocusScore (statsRef s)" using score_range by blast
next
  assume "studying (statsRef s) \<le> total' (statsRef s)"
  then show "calcFocusScore (statsRef s) \<le> 100" using score_range by blast
next
  assume h: "0 < total' (statsRef s) \<and> studying (statsRef s) \<le> total' (statsRef s)
            \<and> total' (statsRef s) \<le> 2 ^ 44"
  then show near: "\<bar>of_int (calcFocusScore (statsRef s))
               - 100 * of_nat (studying (statsRef s)) / of_nat (total' (statsRef s))\<bar>
              \<le> (1 / 2 :: rat)"
    by (intro score_nearest) simp_all
  then show "calcFocusScore (statsRef s)
                  = Math_round (100 * of_nat (studying (statsRef s)) / of_nat (total' (statsRef s)))
               \<or> calcFocusScore (statsRef s)
                  = Math_round (100 * of_nat (studying (statsRef s)) / of_nat (total' (statsRef s))) - 1
                 \<and> of_int (Math_round (100 * of_nat (studying (statsRef s))
                                        / of_nat (total' (statsRef s))))
                   = (100 * of_nat (studying (statsRef s)) / of_nat (total' (statsRef s)) + 1 / 2
                      :: rat)"
    by (rule nearest_is_round)
qed

theorem focus_score_on_stop_witness:
  "isMonitoring scenarioApp
   \<and> statsRef scenarioApp = \<lparr>studying = 2, distracted = 2, absent = 0, total' = 4\<rparr>
   \<and> focusScore (hd (sessions (toggleMonitoring sampleClock scenarioApp))) = 50
   \<and> \<bar>of_int (50::int) - 100 * of_nat 2 / of_nat 4\<bar> \<le> (1 / 2 :: rat)
   \<and> isMonitoring startedApp \<and> total' (statsRef startedApp) = 0
   \<and> focusScore (hd (sessions (toggleMonitoring sampleClock startedApp))) = 0"
  using focus_score_on_stop [of scenarioApp sampleClock]
    focus_score_on_stop [of startedApp sampleClock]
  by (simp add: scenarioApp_fields score_eval_half startedApp_fields zeroStats_def)

text \<open>
  C4 as stated fails on a tie: with 23 Studying results out of 40 the exact value is
  57.5, whose rounding is 58 (half up and half to even alike, and also when
  \<open>100 * 23 / 40\<close> is evaluated in double precision), but the double product
  \<open>(23 / 40) * 100\<close> is just below 57.5 and the recorded score is 57.
\<close>

theorem focus_score_tie_counterexample:
  "isMonitoring tieApp
   \<and> statsRef tieApp = \<lparr>studying = 23, distracted = 17, absent = 0, total' = 40\<rparr>
   \<and> focusScore (hd (sessions (toggleMonitoring sampleClock tieApp))) = 57
   \<and> (100 * of_nat 23 / of_nat 40 :: rat) = 57 + 1 / 2
   \<and> Math_round (100 * of_nat 23 / of_nat 40) = 58
   \<and> rne (100 * of_nat 23 / of_nat 40) = 58
   \<and> Math_round (fdiv (fmul 100 (of_nat 23)) (of_nat 40)) = 58"
  using tieApp_eval round_eval_tie round_eval_tie_double by simp

lemma literal_fifth: "fl (2 / 10) = 3602879701896397 / 18014398509481984"
  by code_simp

lemma ducked_half: "fmul (1 / 2) (fl (2 / 10)) = fl (1 / 10)"
  by code_simp

lemma ducked_close:
  assumes b: "0 \<le> b"
  shows "\<bar>fmul b (fl (2 / 10)) - b * (2 / 10)\<bar> \<le> b / 2 ^ 53 + 2 powi (- 1075)"
proof (cases "b = 0")
  case True
  then show ?thesis by (simp add: fmul_def fl_zero)
next
  case False
  define c :: rat where "c = fl (2 / 10)"
  have cval: "c = 3602879701896397 / 18014398509481984"
    unfolding c_def by (rule literal_fifth)
  define eps :: rat where "eps = 1 / 2 ^ 53"
  define tiny :: rat where "tiny = 2 powi (- 1075)"
  have bpos: "0 < b" using b False by simp
  have c: "0 < c" "c \<le> 1 / 2" "\<bar>c - 2 / 10\<bar> \<le> eps / 2" by (simp_all add: cval eps_def)
  have bc: "0 < b * c" using bpos c(1) by simp
  have "\<bar>fl (b * c) - b * c\<bar> \<le> b * c / 2 ^ 53 + 2 powi (- 1075)" using bc by (rule fl_error_abs)
  then have e1: "\<bar>fl (b * c) - b * c\<bar> \<le> b * c * eps + tiny" by (simp add: eps_def tiny_def)
  have "b * c * eps \<le> b * (1 / 2) * eps"
    using c(2) bpos by (intro mult_right_mono mult_left_mono) (simp_all add: eps_def)
  then have e1': "\<bar>fl (b * c) - b * c\<bar> \<le> b * eps / 2 + tiny" using e1 by simp
  have "b * c - b * (2 / 10) = b * (c - 2 / 10)" by (simp only: right_diff_distrib)
  then have "\<bar>b * c - b * (2 / 10)\<bar> = \<bar>b\<bar> * \<bar>c - 2 / 10\<bar>" by (simp only: abs_mult)
  also have "\<dots> = b * \<bar>c - 2 / 10\<bar>" using bpos by (simp only: abs_of_pos)
  also have "\<dots> \<le> b * (eps / 2)" using c(3) bpos by (intro mult_left_mono) simp_all
  finally have e2: "\<bar>b * c - b * (2 / 10)\<bar> \<le> b * eps / 2" by simp
  have "\<bar>fl (b * c) - b * (2 / 10)\<bar> \<le> b * eps + tiny" using e1' e2 by linarith
  then show ?thesis unfolding fmul_def c_def eps_def tiny_def by simp
qed

text \<open>
  C8. The target volume is the base volume while the stable status is Studying or Idle,
  and the double product \<open>musicVolume * 0.2\<close> while it is Distracted or Absent; for a base
  volume in \<open>[0, 1]\<close> that product is within \<open>2 ^ -53\<close> relative (and \<open>2 ^ -1075\<close>
  absolute) of the exact fifth. With the base volume 0.5 the stable statuses Studying,
  Distracted, Studying give 0.5, the double 0.1, and 0.5.
\<close>

theorem ducked_volume:
  "getTargetVolume s =
     (if isBad (status (currentResult s)) then fmul (musicVolume s) (fl (2 / 10))
      else musicVolume s)
   \<and> (0 \<le> musicVolume s \<and> musicVolume s \<le> 1 \<and> isBad (status (currentResult s)) \<longrightarrow>
        \<bar>getTargetVolume s - musicVolume s * (2 / 10)\<bar>
          \<le> musicVolume s / 2 ^ 53 + 2 powi (- 1075))
   \<and> map (\<lambda>st. getTargetVolume (initialApp\<lparr>currentResult := raw st\<rparr>))
         [STUDYING, DISTRACTED, STUDYING] = [1 / 2, fl (1 / 10), 1 / 2]"
proof (intro conjI impI)
  show eq: "getTargetVolume s =
     (if isBad (status (currentResult s)) then fmul (musicVolume s) (fl (2 / 10))
      else musicVolume s)"
    by (simp add: getTargetVolume_def isBad_def Let_def)
  assume "0 \<le> musicVolume s \<and> musicVolume s \<le> 1 \<and> isBad (status (currentResult s))"
  then show "\<bar>getTargetVolume s - musicVolume s * (2 / 10)\<bar>
          \<le> musicVolume s / 2 ^ 53 + 2 powi (- 1075)"
    using ducked_close [of "musicVolume s"] by (simp only: eq if_True)
next
  show "map (\<lambda>st. getTargetVolume (initialApp\<lparr>currentResult := raw st\<rparr>))
         [STUDYING, DISTRACTED, STUDYING] = [1 / 2, fl (1 / 10), 1 / 2]"
    using ducked_half by (simp add: getTargetVolume_def initialApp_def raw_def Let_def)
qed

theorem ducked_volume_witness:
  "(0::rat) \<le> musicVolume (initialApp\<lparr>currentResult := raw ABSENT\<rparr>)
   \<and> musicVolume (initialApp\<lparr>currentResult := raw ABSENT\<rparr>) \<le> 1
   \<and> isBad (status (currentResult (initialApp\<lparr>currentResult := raw ABSENT\<rparr>)))
   \<and> getTargetVolume (initialApp\<lparr>currentResult := raw ABSENT\<rparr>) = fl (1 / 10)
   \<and> \<bar>getTargetVolume (initialApp\<lparr>currentResult := raw ABSENT\<rparr>)
        - musicVolume (initialApp\<lparr>currentResult := raw ABSENT\<rparr>) * (2 / 10)\<bar>
       \<le> musicVolume (initialApp\<lparr>currentResult := raw ABSENT\<rparr>) / 2 ^ 53 + 2 powi (- 1075)"
proof -
  let ?s = "initialApp\<lparr>currentResult := raw ABSENT\<rparr>"
  have h: "0 \<le> musicVolume ?s \<and> musicVolume ?s \<le> 1 \<and> isBad (status (currentResult ?s))"
    by (simp add: initialApp_def raw_def isBad_def)
  have v: "getTargetVolume ?s = fl (1 / 10)"
    using ducked_half by (simp add: getTargetVolume_def initialApp_def raw_def Let_def)
  from ducked_volume [of ?s] h
  have "\<bar>getTargetVolume ?s - musicVolume ?s * (2 / 10)\<bar>
          \<le> musicVolume ?s / 2 ^ 53 + 2 powi (- 1075)"
    by blast
  with h v show ?thesis by blast
qed

section \<open>The classification client\<close>

lemma analyzeLoop_last:
  "analyzeLoop g p c (Suc (Suc 0)) tr =
     (case tryClassify g p c (Suc (Suc 0)) of
        Inr result \<Rightarrow> Inr (result, tr @ [Call c])
      | Inl error \<Rightarrow> Inr (fallback (if isOverloaded error then ''Server busy, retrying...''
                                     else ''Analysis failed''), tr @ [Call c]))"
  by (subst analyzeLoop.simps [of g p c "Suc (Suc 0)" tr])
    (simp add: MAX_RETRIES_def split: sum.splits)

lemma analyzeLoop_second:
  "analyzeLoop g p c (Suc 0) tr =
     (case tryClassify g p c (Suc 0) of
        Inr result \<Rightarrow> Inr (result, tr @ [Call c])
      | Inl error \<Rightarrow>
          if isOverloaded error
          then analyzeLoop g p c (Suc (Suc 0)) (tr @ [Call c, Wait 2000])
          else Inr (fallback ''Analysis failed'', tr @ [Call c]))"
  by (subst analyzeLoop.simps [of g p c "Suc 0" tr])
    (simp add: MAX_RETRIES_def split: sum.splits)

lemma analyzeLoop_first:
  "analyzeLoop g p c 0 tr =
     (case tryClassify g p c 0 of
        Inr result \<Rightarrow> Inr (result, tr @ [Call c])
      | Inl error \<Rightarrow>
          if isOverloaded error then analyzeLoop g p c (Suc 0) (tr @ [Call c, Wait 1000])
          else Inr (fallback ''Analysis failed'', tr @ [Call c]))"
  by (subst analyzeLoop.simps [of g p c 0 tr]) (simp add: MAX_RETRIES_def split: sum.splits)

lemmas analyzeLoop_unroll = analyzeLoop_first analyzeLoop_second analyzeLoop_last

lemma tryClassify_rejected:
  "g c k = Rejected e \<Longrightarrow> tryClassify g p c k = Inl e"
  by (simp add: tryClassify_def)

lemma tryClassify_empty:
  "g c k = Response None \<or> g c k = Response (Some []) \<Longrightarrow>
   tryClassify g p c k = Inl (plainError ''No response from AI'')"
  by (auto simp: tryClassify_def)

lemma tryClassify_unparsable:
  "g c k = Response (Some t) \<Longrightarrow> t \<noteq> [] \<Longrightarrow> p (stripFence (trim t)) = Inl msg \<Longrightarrow>
   tryClassify g p c k = Inl (plainError msg)"
  by (simp add: tryClassify_def)

lemma tryClassify_parsed:
  "g c k = Response (Some t) \<Longrightarrow> t \<noteq> [] \<Longrightarrow> p (stripFence (trim t)) = Inr r \<Longrightarrow>
   tryClassify g p c k = Inr r"
  by (simp add: tryClassify_def)

lemma plainError_overloaded:
  "isOverloaded (plainError msg)
     \<longleftrightarrow> includes' msg ''overloaded'' \<or> includes' msg ''UNAVAILABLE''"
  by (simp add: isOverloaded_def plainError_def truthy_def)

lemma no_response_not_overloaded: "\<not> isOverloaded (plainError ''No response from AI'')"
  by (simp add: plainError_overloaded startsWith_def)

lemma analyzeLoop_trace:
  "\<exists>result tr. analyzeLoop g p c 0 [] = Inr (result, tr)
     \<and> tr \<in> {[Call c], [Call c, Wait 1000, Call c],
              [Call c, Wait 1000, Call c, Wait 2000, Call c]}"
  by (simp add: analyzeLoop_unroll split: sum.splits)

lemma busy_overloaded:
  "isOverloaded \<lparr>err_status = Num 503, err_code = Undefined, err_message = ''overloaded''\<rparr>"
  by (simp add: isOverloaded_def truthy_def)

lemma broken_not_overloaded:
  "\<not> isOverloaded \<lparr>err_status = Num 400, err_code = Undefined, err_message = ''Bad Request''\<rparr>"
  by (simp add: isOverloaded_def truthy_def startsWith_def)

lemma clean_sample: "cleanBase64 ''data:image/jpeg;base64,AAAA'' = ''AAAA''"
  by (simp add: cleanBase64_def mimeAlternatives_def)

lemma matchPrefix_append: "matchPrefix p (p @ s) = Some s"
  by (induction p) simp_all

lemma cleanBase64_known:
  assumes "mime \<in> set mimeAlternatives"
  shows "cleanBase64 (''data:image/'' @ mime @ '';base64,'' @ rest) = rest"
proof -
  from assms consider "mime = ''png''" | "mime = ''jpeg''" | "mime = ''jpg''"
    by (auto simp: mimeAlternatives_def)
  then show ?thesis
    by cases (simp_all add: cleanBase64_def mimeAlternatives_def)
qed

lemma retryTrace_eval:
  "retryTrace c 0 = [Call c]"
  "retryTrace c (Suc 0) = [Call c, Wait 1000, Call c]"
  "retryTrace c (Suc (Suc 0)) = [Call c, Wait 1000, Call c, Wait 2000, Call c]"
  by (simp_all add: retryTrace_def)

lemma analyzeLoop_threw:
  assumes k: "k < 3"
    and before: "\<forall>j<k. \<exists>e. tryClassify g p c j = Inl e \<and> isOverloaded e"
    and at: "tryClassify g p c k = Inl e" "isOverloaded e \<longrightarrow> k = 2"
  shows "analyzeLoop g p c 0 [] =
           Inr (fallback (if isOverloaded e then ''Server busy, retrying...''
                          else ''Analysis failed''), retryTrace c k)"
proof -
  from k consider "k = 0" | "k = Suc 0" | "k = Suc (Suc 0)" by linarith
  then show ?thesis
  proof cases
    case 1
    with at show ?thesis by (simp add: analyzeLoop_first retryTrace_eval)
  next
    case 2
    with before obtain e0 where "tryClassify g p c 0 = Inl e0" "isOverloaded e0" by auto
    with at 2 show ?thesis
      by (simp add: analyzeLoop_first analyzeLoop_second retryTrace_eval)
  next
    case 3
    with before obtain e0 where e0: "tryClassify g p c 0 = Inl e0" "isOverloaded e0" by auto
    from 3 before have "\<exists>e. tryClassify g p c (Suc 0) = Inl e \<and> isOverloaded e" by simp
    then obtain e1 where "tryClassify g p c (Suc 0) = Inl e1" "isOverloaded e1" by auto
    with e0 at 3 show ?thesis
      by (simp add: analyzeLoop_unroll retryTrace_eval)
  qed
qed

lemma analyzeLoop_failed:
  assumes "k < 3"
    and "\<forall>j<k. \<exists>e. tryClassify g p c j = Inl e \<and> isOverloaded e"
    and "tryClassify g p c k = Inl e" "\<not> isOverloaded e"
  shows "analyzeLoop g p c 0 [] = Inr (fallback ''Analysis failed'', retryTrace c k)"
  using analyzeLoop_threw [OF assms(1) assms(2) assms(3)] assms(4) by simp

lemma analyzeLoop_succeeded:
  assumes k: "k < 3"
    and before: "\<forall>j<k. \<exists>e. tryClassify g p c j = Inl e \<and> isOverloaded e"
    and at: "tryClassify g p c k = Inr r"
  shows "analyzeLoop g p c 0 [] = Inr (r, retryTrace c k)"
proof -
  from k consider "k = 0" | "k = Suc 0" | "k = Suc (Suc 0)" by linarith
  then show ?thesis
  proof cases
    case 1
    with at show ?thesis by (simp add: analyzeLoop_first retryTrace_eval)
  next
    case 2
    with before obtain e0 where "tryClassify g p c 0 = Inl e0" "isOverloaded e0" by auto
    with at 2 show ?thesis
      by (simp add: analyzeLoop_first analyzeLoop_second retryTrace_eval)
  next
    case 3
    with before obtain e0 where e0: "tryClassify g p c 0 = Inl e0" "isOverloaded e0" by auto
    from 3 before have "\<exists>e. tryClassify g p c (Suc 0) = Inl e \<and> isOverloaded e" by simp
    then obtain e1 where "tryClassify g p c (Suc 0) = Inl e1" "isOverloaded e1" by auto
    with e0 at 3 show ?thesis
      by (simp add: analyzeLoop_unroll retryTrace_eval)
  qed
qed

lemma flaky_attempts:
  "tryClassify flakyClassifier sampleParse ''AAAA'' 0
     = Inl \<lparr>err_status = Num 503, err_code = Undefined, err_message = ''overloaded''\<rparr>"
  "tryClassify flakyClassifier sampleParse ''AAAA'' (Suc 0)
     = Inl \<lparr>err_status = Num 400, err_code = Undefined, err_message = ''Bad Request''\<rparr>"
  by (simp_all add: tryClassify_def flakyClassifier_def busyClassifier_def brokenClassifier_def)

text \<open>
  C2, as amended. When the classifier rejects every attempt with an overload error, the
  client makes exactly 3 calls, waits 1000 ms and then 2000 ms between them, and returns
  the result Idle with reason "Server busy, retrying..." and confidence 0. When attempt
  \<open>k\<close> fails with an error that is not an overload error, after overload errors on the
  attempts before it, the client makes no further call and no further wait, and returns
  Idle with reason "Analysis failed" and confidence 0.
\<close>

theorem retry_policy:
  "((\<forall>k<3. \<exists>e. generateContent (cleanBase64 img) k = Rejected e \<and> isOverloaded e) \<longrightarrow>
      analyzeFrame generateContent JSON_parse img =
        Inr (\<lparr>status = IDLE, reason = ''Server busy, retrying...'', confidence = 0\<rparr>,
             [Call (cleanBase64 img), Wait 1000, Call (cleanBase64 img), Wait 2000,
              Call (cleanBase64 img)]))
   \<and> (k < 3
        \<and> (\<forall>j<k. \<exists>e. tryClassify generateContent JSON_parse (cleanBase64 img) j = Inl e
               \<and> isOverloaded e)
        \<and> (\<exists>e. tryClassify generateContent JSON_parse (cleanBase64 img) k = Inl e
               \<and> \<not> isOverloaded e) \<longrightarrow>
      analyzeFrame generateContent JSON_parse img =
        Inr (\<lparr>status = IDLE, reason = ''Analysis failed'', confidence = 0\<rparr>,
             retryTrace (cleanBase64 img) k))"
proof (intro conjI impI)
  assume all: "\<forall>k<3. \<exists>e. generateContent (cleanBase64 img) k = Rejected e \<and> isOverloaded e"
  obtain e0 where e0: "generateContent (cleanBase64 img) 0 = Rejected e0" "isOverloaded e0"
    using all [rule_format, of 0] by auto
  obtain e1 where e1: "generateContent (cleanBase64 img) (Suc 0) = Rejected e1" "isOverloaded e1"
    using all [rule_format, of "Suc 0"] by auto
  obtain e2 where e2: "generateContent (cleanBase64 img) (Suc (Suc 0)) = Rejected e2"
    "isOverloaded e2"
    using all [rule_format, of "Suc (Suc 0)"] by auto
  show "analyzeFrame generateContent JSON_parse img =
        Inr (\<lparr>status = IDLE, reason = ''Server busy, retrying...'', confidence = 0\<rparr>,
             [Call (cleanBase64 img), Wait 1000, Call (cleanBase64 img), Wait 2000,
              Call (cleanBase64 img)])"
    by (simp add: analyzeFrame_def analyzeLoop_unroll tryClassify_rejected e0 e1 e2
        fallback_def)
next
  assume h: "k < 3
        \<and> (\<forall>j<k. \<exists>e. tryClassify generateContent JSON_parse (cleanBase64 img) j = Inl e
               \<and> isOverloaded e)
        \<and> (\<exists>e. tryClassify generateContent JSON_parse (cleanBase64 img) k = Inl e
               \<and> \<not> isOverloaded e)"
  then obtain e where e: "tryClassify generateContent JSON_parse (cleanBase64 img) k = Inl e"
    "\<not> isOverloaded e" by blast
  from h have "analyzeLoop generateContent JSON_parse (cleanBase64 img) 0 []
      = Inr (fallback ''Analysis failed'', retryTrace (cleanBase64 img) k)"
    using e by (intro analyzeLoop_failed) blast+
  then show "analyzeFrame generateContent JSON_parse img =
        Inr (\<lparr>status = IDLE, reason = ''Analysis failed'', confidence = 0\<rparr>,
             retryTrace (cleanBase64 img) k)"
    by (simp add: analyzeFrame_def fallback_def)
qed

theorem retry_policy_witness:
  "(\<exists>e. busyClassifier (cleanBase64 ''data:image/jpeg;base64,AAAA'') 0 = Rejected e
       \<and> isOverloaded e)
   \<and> (\<exists>e. busyClassifier (cleanBase64 ''data:image/jpeg;base64,AAAA'') 1 = Rejected e
       \<and> isOverloaded e)
   \<and> (\<exists>e. busyClassifier (cleanBase64 ''data:image/jpeg;base64,AAAA'') 2 = Rejected e
       \<and> isOverloaded e)
   \<and> analyzeFrame busyClassifier sampleParse ''data:image/jpeg;base64,AAAA'' =
        Inr (\<lparr>status = IDLE, reason = ''Server busy, retrying...'', confidence = 0\<rparr>,
             [Call ''AAAA'', Wait 1000, Call ''AAAA'', Wait 2000, Call ''AAAA''])
   \<and> (\<exists>e. tryClassify flakyClassifier sampleParse (cleanBase64 ''data:image/jpeg;base64,AAAA'') 0
         = Inl e \<and> isOverloaded e)
   \<and> (\<exists>e. tryClassify flakyClassifier sampleParse (cleanBase64 ''data:image/jpeg;base64,AAAA'') 1
         = Inl e \<and> \<not> isOverloaded e)
   \<and> analyzeFrame flakyClassifier sampleParse ''data:image/jpeg;base64,AAAA'' =
        Inr (\<lparr>status = IDLE, reason = ''Analysis failed'', confidence = 0\<rparr>,
             [Call ''AAAA'', Wait 1000, Call ''AAAA''])"
proof -
  let ?img = "''data:image/jpeg;base64,AAAA''"
  have busy: "\<exists>e. busyClassifier (cleanBase64 ?img) k = Rejected e \<and> isOverloaded e" for k
    by (simp add: busyClassifier_def busy_overloaded)
  have f0: "\<exists>e. tryClassify flakyClassifier sampleParse (cleanBase64 ?img) 0 = Inl e
              \<and> isOverloaded e"
    by (simp add: clean_sample flaky_attempts busy_overloaded)
  have f1: "\<exists>e. tryClassify flakyClassifier sampleParse (cleanBase64 ?img) 1 = Inl e
              \<and> \<not> isOverloaded e"
    by (simp add: clean_sample flaky_attempts broken_not_overloaded)
  have before: "\<forall>j<1. \<exists>e. tryClassify flakyClassifier sampleParse (cleanBase64 ?img) j = Inl e
              \<and> isOverloaded e"
    using f0 by simp
  have r1: "analyzeFrame busyClassifier sampleParse ?img =
        Inr (\<lparr>status = IDLE, reason = ''Server busy, retrying...'', confidence = 0\<rparr>,
             [Call ''AAAA'', Wait 1000, Call ''AAAA'', Wait 2000, Call ''AAAA''])"
    using retry_policy [of busyClassifier ?img sampleParse 0] busy
    by (simp add: clean_sample)
  have "analyzeFrame flakyClassifier sampleParse ?img =
        Inr (\<lparr>status = IDLE, reason = ''Analysis failed'', confidence = 0\<rparr>,
             retryTrace (cleanBase64 ?img) 1)"
    using retry_policy [of flakyClassifier ?img sampleParse 1] before f1 by simp
  then have r2: "analyzeFrame flakyClassifier sampleParse ?img =
        Inr (\<lparr>status = IDLE, reason = ''Analysis failed'', confidence = 0\<rparr>,
             [Call ''AAAA'', Wait 1000, Call ''AAAA''])"
    by (simp add: clean_sample retryTrace_eval)
  show ?thesis
    using busy [of 0] busy [of 1] busy [of 2] r1 f0 f1 r2 by (intro conjI)
qed

text \<open>
  C2 as stated fails in the reason of the result: after three overload errors (status
  503) the reason is "Server busy, retrying...", not "Service unavailable". The
  \<open>return\<close> after the loop, which carries that reason, is never reached.
\<close>

theorem retry_fallback_counterexample:
  "busyClassifier ''AAAA'' 0 = Rejected \<lparr>err_status = Num 503, err_code = Undefined, err_message = ''overloaded''\<rparr>
   \<and> busyClassifier ''AAAA'' 1 = busyClassifier ''AAAA'' 0
   \<and> busyClassifier ''AAAA'' 2 = busyClassifier ''AAAA'' 0
   \<and> analyzeFrame busyClassifier sampleParse ''data:image/jpeg;base64,AAAA''
       = Inr (\<lparr>status = IDLE, reason = ''Server busy, retrying...'', confidence = 0\<rparr>,
              [Call ''AAAA'', Wait 1000, Call ''AAAA'', Wait 2000, Call ''AAAA''])
   \<and> analyzeFrame busyClassifier sampleParse ''data:image/jpeg;base64,AAAA''
       \<noteq> Inr (\<lparr>status = IDLE, reason = ''Service unavailable'', confidence = 0\<rparr>,
              [Call ''AAAA'', Wait 1000, Call ''AAAA'', Wait 2000, Call ''AAAA''])"
  by (simp add: analyzeFrame_def analyzeLoop_unroll clean_sample tryClassify_def
      busyClassifier_def busy_overloaded fallback_def)

text \<open>
  C6. \<open>analyzeFrame\<close> never rejects: it resolves with a result, whatever the image and
  whatever the classifier does. It returns after the first attempt \<open>k\<close> that does not
  throw an overload error, or after the third attempt, with the calls and waits of the
  attempts up to \<open>k\<close>: the parsed reply if attempt \<open>k\<close> succeeded, and otherwise the
  synthetic result, Idle with confidence 0 and the reason "Server busy, retrying..." for
  an overload error and "Analysis failed" for any other. An attempt throws the error of a
  rejected call, the error "No response from AI" (not an overload error) for an undefined
  or empty reply, and the syntax error for a reply that does not parse (an overload error
  only if its message has one of the two words); it succeeds with the parsed result of a
  reply that parses.
\<close>

theorem errors_absorbed:
  "(\<exists>result tr. analyzeFrame generateContent JSON_parse img = Inr (result, tr))
   \<and> (k < MAX_RETRIES
        \<and> (\<forall>j<k. \<exists>e. tryClassify generateContent JSON_parse (cleanBase64 img) j = Inl e
               \<and> isOverloaded e)
        \<and> tryClassify generateContent JSON_parse (cleanBase64 img) k = Inr r \<longrightarrow>
       analyzeFrame generateContent JSON_parse img = Inr (r, retryTrace (cleanBase64 img) k))
   \<and> (k < MAX_RETRIES
        \<and> (\<forall>j<k. \<exists>e. tryClassify generateContent JSON_parse (cleanBase64 img) j = Inl e
               \<and> isOverloaded e)
        \<and> tryClassify generateContent JSON_parse (cleanBase64 img) k = Inl error
        \<and> (isOverloaded error \<longrightarrow> k = MAX_RETRIES - 1) \<longrightarrow>
       analyzeFrame generateContent JSON_parse img =
         Inr (\<lparr>status = IDLE,
               reason = (if isOverloaded error then ''Server busy, retrying...''
                         else ''Analysis failed''),
               confidence = 0\<rparr>,
              retryTrace (cleanBase64 img) k))
   \<and> (generateContent payload n = Rejected thrown \<longrightarrow>
        tryClassify generateContent JSON_parse payload n = Inl thrown)
   \<and> (generateContent payload n = Response None
        \<or> generateContent payload n = Response (Some []) \<longrightarrow>
        tryClassify generateContent JSON_parse payload n
          = Inl (plainError ''No response from AI'')
        \<and> \<not> isOverloaded (plainError ''No response from AI''))
   \<and> (generateContent payload n = Response (Some t) \<and> t \<noteq> []
        \<and> JSON_parse (stripFence (trim t)) = Inl msg \<longrightarrow>
        tryClassify generateContent JSON_parse payload n = Inl (plainError msg)
        \<and> (isOverloaded (plainError msg)
             \<longleftrightarrow> includes' msg ''overloaded'' \<or> includes' msg ''UNAVAILABLE''))
   \<and> (generateContent payload n = Response (Some t) \<and> t \<noteq> []
        \<and> JSON_parse (stripFence (trim t)) = Inr parsed \<longrightarrow>
        tryClassify generateContent JSON_parse payload n = Inr parsed)"
proof (intro conjI impI)
  show "\<exists>result tr. analyzeFrame generateContent JSON_parse img = Inr (result, tr)"
    using analyzeLoop_trace [of generateContent JSON_parse "cleanBase64 img"]
    unfolding analyzeFrame_def by blast
next
  assume "k < MAX_RETRIES
        \<and> (\<forall>j<k. \<exists>e. tryClassify generateContent JSON_parse (cleanBase64 img) j = Inl e
               \<and> isOverloaded e)
        \<and> tryClassify generateContent JSON_parse (cleanBase64 img) k = Inr r"
  then show "analyzeFrame generateContent JSON_parse img
      = Inr (r, retryTrace (cleanBase64 img) k)"
    unfolding analyzeFrame_def MAX_RETRIES_def
    by (intro analyzeLoop_succeeded) blast+
next
  assume h: "k < MAX_RETRIES
        \<and> (\<forall>j<k. \<exists>e. tryClassify generateContent JSON_parse (cleanBase64 img) j = Inl e
               \<and> isOverloaded e)
        \<and> tryClassify generateContent JSON_parse (cleanBase64 img) k = Inl error
        \<and> (isOverloaded error \<longrightarrow> k = MAX_RETRIES - 1)"
  then have "analyzeLoop generateContent JSON_parse (cleanBase64 img) 0 [] =
      Inr (fallback (if isOverloaded error then ''Server busy, retrying...''
                     else ''Analysis failed''), retryTrace (cleanBase64 img) k)"
    unfolding MAX_RETRIES_def by (intro analyzeLoop_threw) simp_all
  then show "analyzeFrame generateContent JSON_parse img =
         Inr (\<lparr>status = IDLE,
               reason = (if isOverloaded error then ''Server busy, retrying...''
                         else ''Analysis failed''),
               confidence = 0\<rparr>,
              retryTrace (cleanBase64 img) k)"
    by (simp add: analyzeFrame_def fallback_def)
next
  assume "generateContent payload n = Rejected thrown"
  then show "tryClassify generateContent JSON_parse payload n = Inl thrown"
    by (rule tryClassify_rejected)
next
  assume "generateContent payload n = Response None
        \<or> generateContent payload n = Response (Some [])"
  then show "tryClassify generateContent JSON_parse payload n
          = Inl (plainError ''No response from AI'')"
    by (rule tryClassify_empty)
next
  show "\<not> isOverloaded (plainError ''No response from AI'')"
    by (rule no_response_not_overloaded)
next
  assume "generateContent payload n = Response (Some t) \<and> t \<noteq> []
        \<and> JSON_parse (stripFence (trim t)) = Inl msg"
  then show "tryClassify generateContent JSON_parse payload n = Inl (plainError msg)"
    by (simp add: tryClassify_unparsable)
next
  show "isOverloaded (plainError msg)
             \<longleftrightarrow> includes' msg ''overloaded'' \<or> includes' msg ''UNAVAILABLE''"
    by (rule plainError_overloaded)
next
  assume "generateContent payload n = Response (Some t) \<and> t \<noteq> []
        \<and> JSON_parse (stripFence (trim t)) = Inr parsed"
  then show "tryClassify generateContent JSON_parse payload n = Inr parsed"
    by (simp add: tryClassify_parsed)
qed

theorem errors_absorbed_witness:
  "tryClassify emptyClassifier sampleParse ''AAAA'' 0 = Inl (plainError ''No response from AI'')
   \<and> analyzeFrame emptyClassifier sampleParse ''data:image/jpeg;base64,AAAA''
       = Inr (\<lparr>status = IDLE, reason = ''Analysis failed'', confidence = 0\<rparr>, [Call ''AAAA''])
   \<and> tryClassify garbledClassifier sampleParse ''AAAA'' 0 = Inl (plainError ''Unexpected token'')
   \<and> analyzeFrame garbledClassifier sampleParse ''data:image/jpeg;base64,AAAA''
       = Inr (\<lparr>status = IDLE, reason = ''Analysis failed'', confidence = 0\<rparr>, [Call ''AAAA''])
   \<and> tryClassify brokenClassifier sampleParse ''AAAA'' 0
       = Inl \<lparr>err_status = Num 400, err_code = Undefined, err_message = ''Bad Request''\<rparr>
   \<and> analyzeFrame brokenClassifier sampleParse ''data:image/jpeg;base64,AAAA''
       = Inr (\<lparr>status = IDLE, reason = ''Analysis failed'', confidence = 0\<rparr>, [Call ''AAAA''])
   \<and> analyzeFrame busyClassifier sampleParse ''data:image/jpeg;base64,AAAA''
       = Inr (\<lparr>status = IDLE, reason = ''Server busy, retrying...'', confidence = 0\<rparr>,
              [Call ''AAAA'', Wait 1000, Call ''AAAA'', Wait 2000, Call ''AAAA''])
   \<and> tryClassify answeringClassifier sampleParse ''AAAA'' 0
       = Inr \<lparr>status = STUDYING, reason = ''Keep going'', confidence = 1\<rparr>
   \<and> analyzeFrame answeringClassifier sampleParse ''data:image/jpeg;base64,AAAA''
       = Inr (\<lparr>status = STUDYING, reason = ''Keep going'', confidence = 1\<rparr>, [Call ''AAAA''])
   \<and> analyzeFrame recoveringClassifier sampleParse ''data:image/jpeg;base64,AAAA''
       = Inr (\<lparr>status = STUDYING, reason = ''Keep going'', confidence = 1\<rparr>,
              [Call ''AAAA'', Wait 1000, Call ''AAAA''])"
proof -
  let ?img = "''data:image/jpeg;base64,AAAA''"
  let ?idle = "\<lparr>status = IDLE, reason = ''Analysis failed'', confidence = 0\<rparr>"
  let ?good = "\<lparr>status = STUDYING, reason = ''Keep going'', confidence = 1\<rparr>"
  let ?e503 = "\<lparr>err_status = Num 503, err_code = Undefined, err_message = ''overloaded''\<rparr>"
  let ?e400 = "\<lparr>err_status = Num 400, err_code = Undefined, err_message = ''Bad Request''\<rparr>"
  have parse_good: "sampleParse (stripFence (trim ''studying'')) = Inr ?good"
    by (simp add: sampleParse_def stripFence_def trim_def isWhiteSpace_def startsWith_def
        fence_def)
  have parse_bad: "sampleParse (stripFence (trim ''<html>'')) = Inl ''Unexpected token''"
    by (simp add: sampleParse_def stripFence_def trim_def isWhiteSpace_def startsWith_def
        fence_def)
  have token: "\<not> isOverloaded (plainError ''Unexpected token'')"
    by (simp add: plainError_overloaded startsWith_def)
  have e1: "tryClassify emptyClassifier sampleParse ''AAAA'' 0
      = Inl (plainError ''No response from AI'')"
    and e1': "\<not> isOverloaded (plainError ''No response from AI'')"
    using errors_absorbed [where generateContent = emptyClassifier and JSON_parse = sampleParse
        and payload = "''AAAA''" and n = 0]
    by (simp_all add: emptyClassifier_def)
  have e2: "analyzeFrame emptyClassifier sampleParse ?img = Inr (?idle, [Call ''AAAA''])"
    using errors_absorbed [where generateContent = emptyClassifier and JSON_parse = sampleParse
        and img = ?img and k = 0 and error = "plainError ''No response from AI''"] e1 e1'
    by (simp add: clean_sample retryTrace_eval MAX_RETRIES_def)
  have g1: "tryClassify garbledClassifier sampleParse ''AAAA'' 0
      = Inl (plainError ''Unexpected token'')"
    using errors_absorbed [where generateContent = garbledClassifier and JSON_parse = sampleParse
        and payload = "''AAAA''" and n = 0 and t = "''<html>''" and msg = "''Unexpected token''"]
      parse_bad
    by (simp add: garbledClassifier_def)
  have g2: "analyzeFrame garbledClassifier sampleParse ?img = Inr (?idle, [Call ''AAAA''])"
    using errors_absorbed [where generateContent = garbledClassifier and JSON_parse = sampleParse
        and img = ?img and k = 0 and error = "plainError ''Unexpected token''"] g1 token
    by (simp add: clean_sample retryTrace_eval MAX_RETRIES_def)
  have b1: "tryClassify brokenClassifier sampleParse ''AAAA'' 0 = Inl ?e400"
    using errors_absorbed [where generateContent = brokenClassifier and JSON_parse = sampleParse
        and payload = "''AAAA''" and n = 0 and thrown = ?e400]
    by (simp add: brokenClassifier_def)
  have b2: "analyzeFrame brokenClassifier sampleParse ?img = Inr (?idle, [Call ''AAAA''])"
    using errors_absorbed [where generateContent = brokenClassifier and JSON_parse = sampleParse
        and img = ?img and k = 0 and error = ?e400] b1 broken_not_overloaded
    by (simp add: clean_sample retryTrace_eval MAX_RETRIES_def)
  have o1: "tryClassify busyClassifier sampleParse ''AAAA'' j = Inl ?e503" for j
    using errors_absorbed [where generateContent = busyClassifier and JSON_parse = sampleParse
        and payload = "''AAAA''" and n = j and thrown = ?e503]
    by (simp add: busyClassifier_def)
  have o2: "analyzeFrame busyClassifier sampleParse ?img =
      Inr (\<lparr>status = IDLE, reason = ''Server busy, retrying...'', confidence = 0\<rparr>,
           [Call ''AAAA'', Wait 1000, Call ''AAAA'', Wait 2000, Call ''AAAA''])"
    using errors_absorbed [where generateContent = busyClassifier and JSON_parse = sampleParse
        and img = ?img and k = "Suc (Suc 0)" and error = ?e503] o1 busy_overloaded
    by (simp add: clean_sample retryTrace_eval MAX_RETRIES_def)
  have a1: "tryClassify answeringClassifier sampleParse ''AAAA'' j = Inr ?good" for j
    using errors_absorbed [where generateContent = answeringClassifier
        and JSON_parse = sampleParse and payload = "''AAAA''" and n = j and t = "''studying''"
        and parsed = ?good] parse_good
    by (simp add: answeringClassifier_def)
  have a2: "analyzeFrame answeringClassifier sampleParse ?img = Inr (?good, [Call ''AAAA''])"
    using errors_absorbed [where generateContent = answeringClassifier
        and JSON_parse = sampleParse and img = ?img and k = 0 and r = ?good] a1
    by (simp add: clean_sample retryTrace_eval MAX_RETRIES_def)
  have r0: "tryClassify recoveringClassifier sampleParse ''AAAA'' 0 = Inl ?e503"
    using errors_absorbed [where generateContent = recoveringClassifier
        and JSON_parse = sampleParse and payload = "''AAAA''" and n = 0 and thrown = ?e503]
    by (simp add: recoveringClassifier_def busyClassifier_def)
  have r1: "tryClassify recoveringClassifier sampleParse ''AAAA'' (Suc 0) = Inr ?good"
    using errors_absorbed [where generateContent = recoveringClassifier
        and JSON_parse = sampleParse and payload = "''AAAA''" and n = "Suc 0"
        and t = "''studying''" and parsed = ?good] parse_good
    by (simp add: recoveringClassifier_def answeringClassifier_def)
  have r2: "analyzeFrame recoveringClassifier sampleParse ?img
      = Inr (?good, [Call ''AAAA'', Wait 1000, Call ''AAAA''])"
    using errors_absorbed [where generateContent = recoveringClassifier
        and JSON_parse = sampleParse and img = ?img and k = "Suc 0" and r = ?good]
      r0 r1 busy_overloaded
    by (simp add: clean_sample retryTrace_eval MAX_RETRIES_def)
  show ?thesis
    using e1 e2 g1 g2 b1 b2 o2 a1 [of 0] a2 r2 by (intro conjI)
qed

text \<open>
  C9, as amended. When the input starts with \<open>data:image/png;base64,\<close>,
  \<open>data:image/jpeg;base64,\<close> or \<open>data:image/jpg;base64,\<close>, the payload of every call to
  the classifier is the rest of the input after that prefix, and at least one call is
  made.
\<close>

theorem known_data_uri_stripped:
  assumes "mime \<in> set mimeAlternatives"
  shows "cleanBase64 (''data:image/'' @ mime @ '';base64,'' @ rest) = rest
       \<and> (\<exists>result tr. analyzeFrame generateContent JSON_parse
              (''data:image/'' @ mime @ '';base64,'' @ rest) = Inr (result, tr)
            \<and> Call rest \<in> set tr
            \<and> (\<forall>payload. Call payload \<in> set tr \<longrightarrow> payload = rest))"
  unfolding analyzeFrame_def cleanBase64_known [OF assms]
  using analyzeLoop_trace [of generateContent JSON_parse rest]
  by auto

theorem known_data_uri_stripped_witness:
  "''jpeg'' \<in> set mimeAlternatives
   \<and> cleanBase64 ''data:image/jpeg;base64,/9j/4AAQ'' = ''/9j/4AAQ''
   \<and> analyzeFrame answeringClassifier sampleParse ''data:image/jpeg;base64,/9j/4AAQ''
       = Inr (\<lparr>status = STUDYING, reason = ''Keep going'', confidence = 1\<rparr>,
              [Call ''/9j/4AAQ''])"
  using known_data_uri_stripped [of "''jpeg''" "''/9j/4AAQ''" answeringClassifier sampleParse]
  by (simp add: mimeAlternatives_def analyzeFrame_def analyzeLoop_first tryClassify_def
      answeringClassifier_def sampleParse_def stripFence_def trim_def isWhiteSpace_def
      startsWith_def fence_def)

text \<open>
  C9 as stated fails for the other image types: a prefix such as
  \<open>data:image/webp;base64,\<close> does not match the expression and is sent along with the
  content.
\<close>

theorem other_mime_counterexample:
  "cleanBase64 ''data:image/webp;base64,UklGRg'' = ''data:image/webp;base64,UklGRg''
   \<and> analyzeFrame answeringClassifier sampleParse ''data:image/webp;base64,UklGRg''
       = Inr (\<lparr>status = STUDYING, reason = ''Keep going'', confidence = 1\<rparr>,
              [Call ''data:image/webp;base64,UklGRg''])"
  by (simp add: cleanBase64_def mimeAlternatives_def analyzeFrame_def analyzeLoop_first
      tryClassify_def answeringClassifier_def sampleParse_def stripFence_def trim_def
      isWhiteSpace_def startsWith_def fence_def)

section \<open>The sampler\<close>












lemma toggle_sensitivity [simp]:
  "sensitivity (toggleMonitoring Date_now s) = sensitivity s"
  by (simp add: toggleMonitoring_def Let_def)











end
